theory Spec2Isabelle
  imports Complex_Main
begin

section \<open>Python strings\<close>

text \<open>
  A Python \<open>str\<close> is a sequence of Unicode code points, and \<open>len\<close> counts code points;
  a string is therefore a list of code points, each a natural number. \<open>lit\<close> turns a
  literal into that form.
\<close>

type_synonym pystr = "nat list"

definition lit :: "string \<Rightarrow> pystr" where
  "lit s = map of_char s"

text \<open>
  The characters that \<open>str.split()\<close> and \<open>str.strip()\<close> (both called without argument)
  treat as whitespace: tab to carriage return, the four separators U+001C..U+001F, space,
  U+0085, U+00A0, U+1680, U+2000..U+200A, U+2028, U+2029, U+202F, U+205F and U+3000.
\<close>

definition isspace :: "nat \<Rightarrow> bool" where
  "isspace c \<longleftrightarrow>
     (9 \<le> c \<and> c \<le> 13) \<or> (28 \<le> c \<and> c \<le> 32) \<or> c = 133 \<or> c = 160 \<or> c = 5760 \<or>
     (8192 \<le> c \<and> c \<le> 8202) \<or> c = 8232 \<or> c = 8233 \<or> c = 8239 \<or> c = 8287 \<or> c = 12288"

text \<open>
  \<open>s.split()\<close>: skip the whitespace in front, take the run of non-whitespace characters
  that follows as one word, and go on behind it. Runs of whitespace count as one
  separator and no empty word is produced.
\<close>

function py_split :: "pystr \<Rightarrow> pystr list" where
  "py_split s =
     (case dropWhile isspace s of
        [] \<Rightarrow> []
      | c # cs \<Rightarrow> (c # takeWhile (\<lambda>x. \<not> isspace x) cs)
                  # py_split (dropWhile (\<lambda>x. \<not> isspace x) cs))"
  by pat_completeness auto
termination
proof (relation "measure length")
  show "wf (measure length)" by simp
next
  fix s :: pystr and c cs
  assume d: "dropWhile isspace s = c # cs"
  have "length (dropWhile (\<lambda>x. \<not> isspace x) cs) \<le> length cs"
    by (rule length_dropWhile_le)
  also have "length cs < length (dropWhile isspace s)"
    by (simp add: d)
  also have "\<dots> \<le> length s"
    by (rule length_dropWhile_le)
  finally show "(dropWhile (\<lambda>x. \<not> isspace x) cs, s) \<in> measure length"
    by simp
qed

declare py_split.simps [simp del]

text \<open>\<open>sep.join(ws)\<close>.\<close>

fun py_join :: "pystr \<Rightarrow> pystr list \<Rightarrow> pystr" where
  "py_join sep [] = []"
| "py_join sep [w] = w"
| "py_join sep (w # v # ws) = w @ sep @ py_join sep (v # ws)"

text \<open>\<open>s.strip()\<close>: the whitespace at both ends removed.\<close>

definition py_strip :: "pystr \<Rightarrow> pystr" where
  "py_strip s = rev (dropWhile isspace (rev (dropWhile isspace s)))"

text \<open>\<open>str(i)\<close> for a non-negative integer: its decimal digits.\<close>

fun str_nat :: "nat \<Rightarrow> pystr" where
  "str_nat n = (if n < 10 then [48 + n] else str_nat (n div 10) @ [48 + n mod 10])"

declare str_nat.simps [simp del]

text \<open>
  A word in the sense of \<open>split\<close>: not empty and free of whitespace.
\<close>

definition word_like :: "pystr \<Rightarrow> bool" where
  "word_like w \<longleftrightarrow> w \<noteq> [] \<and> list_all (\<lambda>c. \<not> isspace c) w"


section \<open>Text normalizer\<close>

text \<open>
  \<^verbatim>\<open>
  def truncate_text(text, max_words=400):
      words = text.split()
      return (" ".join(words[:max_words]), len(words) > max_words)
  \<close>
  The word budget is a natural number, so the slice \<open>words[:max_words]\<close> is \<open>take\<close>.
\<close>

definition truncate_text :: "pystr \<Rightarrow> nat \<Rightarrow> pystr \<times> bool" where
  "truncate_text text max_words =
     (let words = py_split text
      in (py_join (lit '' '') (take max_words words), max_words < length words))"


section \<open>Exceptions, models and the surrounding world\<close>

text \<open>
  Every handler wraps its work in \<open>try: ... except Exception as e\<close>; an exception is a
  value. \<open>KeyError\<close> carries the key that was looked up. \<open>UnicodeEncodeError\<close> carries
  the \<open>start\<close> and \<open>end\<close> attributes of Python's exception, the positions between which
  the text cannot be encoded. Every other exception carries its message.
\<close>

datatype py_exn = KeyError pystr | UnicodeEncodeError nat nat | Raised pystr

text \<open>
  A loaded pipeline is an opaque handle. The four cached loaders are told apart by a key:
  \<open>get_summarizer\<close>, \<open>get_qa\<close> and \<open>get_classifier\<close> take no argument,
  \<open>load_translator\<close> is keyed by the model name it is called with.
\<close>

type_synonym handle = nat

datatype model_key = SummarizerModel | QAModel | ClassifierModel | TranslatorModel pystr

text \<open>
  What the program calls but does not define is a parameter of the model:
  \<^item> \<open>pretrained k n\<close>: the body of a loader (\<open>from_pretrained\<close> twice, then \<open>pipeline\<close>)
    run for key \<open>k\<close> as the \<open>n\<close>-th load of the process (counted from 0); it yields a
    pipeline or raises. The index lets a load fail at one time and succeed at another.
  \<^item> \<open>summarizer_call h trunc\<close>: \<open>summarizer(trunc, max_length=130, min_length=30,
    do_sample=False)\<close> followed by \<open>result[0]['summary_text']\<close>;
  \<^item> \<open>qa_call h question context\<close>: the answer and its score;
  \<^item> \<open>sent_tokenize\<close>: the sentence tokenizer of NLTK, which raises when its data is
    missing;
  \<^item> \<open>translator_call h trunc\<close>: \<open>translator(trunc, max_length=256)\<close> followed by
    \<open>result[0]['translation_text']\<close>;
  \<^item> \<open>classifier_call h trunc labels\<close>: \<open>result['labels']\<close> and \<open>result['scores']\<close> of
    the zero-shot classifier.
\<close>

record world =
  pretrained :: "model_key \<Rightarrow> nat \<Rightarrow> py_exn + handle"
  summarizer_call :: "handle \<Rightarrow> pystr \<Rightarrow> py_exn + pystr"
  qa_call :: "handle \<Rightarrow> pystr \<Rightarrow> pystr \<Rightarrow> py_exn + pystr \<times> real"
  sent_tokenize :: "pystr \<Rightarrow> py_exn + pystr list"
  translator_call :: "handle \<Rightarrow> pystr \<Rightarrow> py_exn + pystr"
  classifier_call :: "handle \<Rightarrow> pystr \<Rightarrow> pystr list \<Rightarrow> py_exn + pystr list \<times> real list"


section \<open>Session state and application state\<close>

text \<open>
  \<open>st.session_state\<close> holds four entries, initialised to \<open>""\<close> (summary, translation) and
  \<open>[]\<close> (quiz, keywords). The field \<open>ss_summary\<close> is \<open>st.session_state["summary"]\<close>, and
  so on.
\<close>

record session_state =
  ss_summary :: pystr
  ss_quiz :: "pystr list"
  ss_translation :: pystr
  ss_keywords :: "pystr list"

text \<open>
  The state of the process: the store behind \<open>@st.cache_resource\<close>, which maps a key to
  the value its loader returned (\<open>None\<close> of Python is \<open>None\<close>, a pipeline is \<open>Some h\<close>), and
  the session state. \<open>load_log\<close> and \<open>infer_log\<close> are not in the program: they record, in
  order, every run of a loader body and every call of a pipeline, so that "no model was
  loaded" and "no inference was run" can be stated.
\<close>

record app_state =
  model_cache :: "model_key \<rightharpoonup> handle option"
  load_log :: "model_key list"
  infer_log :: "model_key list"
  session :: session_state

definition initial_session :: session_state where
  "initial_session = \<lparr>ss_summary = [], ss_quiz = [], ss_translation = [], ss_keywords = []\<rparr>"

definition initial_state :: app_state where
  "initial_state =
     \<lparr>model_cache = Map.empty, load_log = [], infer_log = [], session = initial_session\<rparr>"


section \<open>Cached model loading\<close>

text \<open>
  The body shared by the four loaders:
  \<^verbatim>\<open>
      try:
          model = ...from_pretrained(...); tokenizer = ...; return pipeline(...)
      except Exception as e:
          st.error(f"Failed to load ...: {str(e)}")
          return None
  \<close>
  It never raises: a failed load is reported and becomes the return value \<open>None\<close>.
\<close>

definition load_pipeline :: "world \<Rightarrow> model_key \<Rightarrow> nat \<Rightarrow> handle option" where
  "load_pipeline w k n = (case pretrained w k n of Inl e \<Rightarrow> None | Inr h \<Rightarrow> Some h)"

text \<open>
  \<open>@st.cache_resource\<close> of Streamlit: a call whose key is in the store returns the stored
  value and does not run the body; otherwise the body runs and whatever it returns is
  stored under the key. Only a raised exception would leave the store without an entry.
\<close>

definition cache_resource ::
  "(nat \<Rightarrow> handle option) \<Rightarrow> model_key \<Rightarrow> app_state \<Rightarrow> handle option \<times> app_state" where
  "cache_resource body k s =
     (case model_cache s k of
        Some v \<Rightarrow> (v, s)
      | None \<Rightarrow>
          (let v = body (length (load_log s))
           in (v, s\<lparr>model_cache := (model_cache s)(k \<mapsto> v), load_log := load_log s @ [k]\<rparr>)))"

definition get_summarizer :: "world \<Rightarrow> app_state \<Rightarrow> handle option \<times> app_state" where
  "get_summarizer w = cache_resource (load_pipeline w SummarizerModel) SummarizerModel"

definition get_qa :: "world \<Rightarrow> app_state \<Rightarrow> handle option \<times> app_state" where
  "get_qa w = cache_resource (load_pipeline w QAModel) QAModel"

definition get_classifier :: "world \<Rightarrow> app_state \<Rightarrow> handle option \<times> app_state" where
  "get_classifier w = cache_resource (load_pipeline w ClassifierModel) ClassifierModel"

definition load_translator :: "world \<Rightarrow> pystr \<Rightarrow> app_state \<Rightarrow> handle option \<times> app_state" where
  "load_translator w model_name =
     cache_resource (load_pipeline w (TranslatorModel model_name)) (TranslatorModel model_name)"

text \<open>The Settings button: \<open>st.cache_resource.clear()\<close>.\<close>

definition clear_cache :: "app_state \<Rightarrow> app_state" where
  "clear_cache s = s\<lparr>model_cache := Map.empty\<rparr>"

text \<open>Bookkeeping for one call of a loaded pipeline.\<close>

definition infer :: "model_key \<Rightarrow> app_state \<Rightarrow> app_state" where
  "infer k s = s\<lparr>infer_log := infer_log s @ [k]\<rparr>"


section \<open>The five capabilities\<close>

text \<open>
  What one press of a button ends in. \<open>EmptyInput\<close>: the text (or the question) is blank.
  \<open>TooFewWords\<close>: fewer than 20 words to summarise. \<open>ModelUnavailable\<close>: the loader
  returned \<open>None\<close>, so the guard \<open>if summarizer:\<close> skips the work. \<open>Failed e\<close>: the
  \<open>except\<close> branch ran. \<open>NoSentences\<close>, \<open>NoQuestions\<close>, \<open>NoKeywords\<close>: the work ran and
  produced nothing, which is reported as a warning. \<open>Succeeded\<close>: a result was shown.
  \<open>CacheCleared\<close>: the Settings button emptied the model cache.
\<close>

datatype outcome =
    EmptyInput | TooFewWords | ModelUnavailable | Failed py_exn
  | NoSentences | NoQuestions | NoKeywords | Succeeded | CacheCleared

text \<open>
  Tab 1. The summary is stored only on the last line of the \<open>try\<close> block, after the
  pipeline has returned.
\<close>

definition sum_btn :: "world \<Rightarrow> pystr \<Rightarrow> app_state \<Rightarrow> outcome \<times> app_state" where
  "sum_btn w text s =
     (if py_strip text = [] then (EmptyInput, s)
      else
        let (trunc, was_trunc) = truncate_text text 400
        in if length (py_split trunc) < 20 then (TooFewWords, s)
           else
             let (summarizer, s1) = get_summarizer w s
             in (case summarizer of
                   None \<Rightarrow> (ModelUnavailable, s1)
                 | Some h \<Rightarrow>
                     (case summarizer_call w h trunc of
                        Inl e \<Rightarrow> (Failed e, infer SummarizerModel s1)
                      | Inr result \<Rightarrow>
                          (Succeeded,
                           (infer SummarizerModel s1)
                             \<lparr>session := (session s1)\<lparr>ss_summary := result\<rparr>\<rparr>))))"

text \<open>Tab 2. The answer is shown and never stored.\<close>

definition qa_btn :: "world \<Rightarrow> pystr \<Rightarrow> pystr \<Rightarrow> app_state \<Rightarrow> outcome \<times> app_state" where
  "qa_btn w context question s =
     (if py_strip context = [] \<or> py_strip question = [] then (EmptyInput, s)
      else
        let (trunc_ctx, was_trunc) = truncate_text context 400;
            (qa_model, s1) = get_qa w s
        in (case qa_model of
              None \<Rightarrow> (ModelUnavailable, s1)
            | Some h \<Rightarrow>
                (case qa_call w h question trunc_ctx of
                   Inl e \<Rightarrow> (Failed e, infer QAModel s1)
                 | Inr result \<Rightarrow> (Succeeded, infer QAModel s1))))"

text \<open>
  Tab 3.
  \<^verbatim>\<open>
  def get_first_words(text, max_words=12):
      words = text.split()
      if len(words) <= max_words:
          return text
      return ' '.join(words[:max_words])

  questions = [f"What is the main concept in: '{get_first_words(s, 12)}'?"
               for s in sentences if len(s) > 10]
  \<close>
  Code point 39 is the apostrophe.
\<close>

definition get_first_words :: "pystr \<Rightarrow> nat \<Rightarrow> pystr" where
  "get_first_words text max_words =
     (let words = py_split text
      in if length words \<le> max_words then text
         else py_join (lit '' '') (take max_words words))"

definition quiz_prompt :: "pystr \<Rightarrow> pystr" where
  "quiz_prompt s =
     lit ''What is the main concept in: '' @ [39] @ get_first_words s 12 @ [39] @ lit ''?''"

definition quiz_questions :: "pystr list \<Rightarrow> pystr list" where
  "quiz_questions sentences = [quiz_prompt s. s \<leftarrow> sentences, 10 < length s]"

definition quiz_btn :: "world \<Rightarrow> pystr \<Rightarrow> app_state \<Rightarrow> outcome \<times> app_state" where
  "quiz_btn w quiz_ctx s =
     (if py_strip quiz_ctx = [] then (EmptyInput, s)
      else
        let (trunc_quiz, was_trunc) = truncate_text quiz_ctx 200
        in (case sent_tokenize w trunc_quiz of
              Inl e \<Rightarrow> (Failed e, s)
            | Inr sents \<Rightarrow>
                (let sentences = take 5 sents
                 in if length sentences = 0 then (NoSentences, s)
                    else
                      let questions = quiz_questions sentences
                      in if questions \<noteq> []
                         then (Succeeded, s\<lparr>session := (session s)\<lparr>ss_quiz := questions\<rparr>\<rparr>)
                         else (NoQuestions, s))))"

text \<open>
  Tab 4. \<open>model_map[lang]\<close> is evaluated inside the \<open>try\<close> block, as the argument of
  \<open>load_translator\<close>: for a language that is not a key it raises \<open>KeyError\<close> before the
  loader is entered.
\<close>

definition model_map :: "pystr \<rightharpoonup> pystr" where
  "model_map =
     map_of
       [(lit ''French'', lit ''Helsinki-NLP/opus-mt-en-fr''),
        (lit ''German'', lit ''Helsinki-NLP/opus-mt-en-de''),
        (lit ''Spanish'', lit ''Helsinki-NLP/opus-mt-en-es''),
        (lit ''Italian'', lit ''Helsinki-NLP/opus-mt-en-it''),
        (lit ''Hindi'', lit ''Helsinki-NLP/opus-mt-en-hi'')]"

definition trans_btn :: "world \<Rightarrow> pystr \<Rightarrow> pystr \<Rightarrow> app_state \<Rightarrow> outcome \<times> app_state" where
  "trans_btn w trans_text lang s =
     (if py_strip trans_text = [] then (EmptyInput, s)
      else
        let (trunc_trans, was_trunc) = truncate_text trans_text 200
        in (case model_map lang of
              None \<Rightarrow> (Failed (KeyError lang), s)
            | Some model_name \<Rightarrow>
                (let (translator, s1) = load_translator w model_name s
                 in (case translator of
                       None \<Rightarrow> (ModelUnavailable, s1)
                     | Some h \<Rightarrow>
                         (case translator_call w h trunc_trans of
                            Inl e \<Rightarrow> (Failed e, infer (TranslatorModel model_name) s1)
                          | Inr result \<Rightarrow>
                              (Succeeded,
                               (infer (TranslatorModel model_name) s1)
                                 \<lparr>session := (session s1)\<lparr>ss_translation := result\<rparr>\<rparr>))))))"

text \<open>
  Tab 5.
  \<^verbatim>\<open>
  keywords = [lbl for lbl, score in zip(result['labels'], result['scores'])
              if score > 0.3][:5]
  \<close>
  A score is a Python float. On the scores the comparison is the comparison of the numbers
  they stand for, so scores are real numbers here; \<open>threshold_agrees\<close> below shows that
  the float written \<open>0.3\<close> and the number 3/10 separate the floats in the same way.
\<close>

definition candidate_labels :: "pystr list" where
  "candidate_labels =
     [lit ''technology'', lit ''science'', lit ''education'', lit ''health'', lit ''business'',
      lit ''finance'', lit ''medical'', lit ''engineering'', lit ''mathematics'', lit ''history'']"

definition select_keywords :: "pystr list \<Rightarrow> real list \<Rightarrow> pystr list" where
  "select_keywords labels scores = take 5 [lbl. (lbl, score) \<leftarrow> zip labels scores, 0.3 < score]"

definition kw_btn :: "world \<Rightarrow> pystr \<Rightarrow> app_state \<Rightarrow> outcome \<times> app_state" where
  "kw_btn w keyword_input s =
     (if py_strip keyword_input = [] then (EmptyInput, s)
      else
        let (trunc_kw, was_trunc) = truncate_text keyword_input 200;
            (classifier, s1) = get_classifier w s
        in (case classifier of
              None \<Rightarrow> (ModelUnavailable, s1)
            | Some h \<Rightarrow>
                (case classifier_call w h trunc_kw candidate_labels of
                   Inl e \<Rightarrow> (Failed e, infer ClassifierModel s1)
                 | Inr (labels, scores) \<Rightarrow>
                     (let kws = select_keywords labels scores
                      in if kws \<noteq> []
                         then (Succeeded,
                               (infer ClassifierModel s1)
                                 \<lparr>session := (session s1)\<lparr>ss_keywords := kws\<rparr>\<rparr>)
                         else (NoKeywords, infer ClassifierModel s1)))))"

text \<open>One user action, and a run of them.\<close>

datatype action =
    SumBtn pystr | QaBtn pystr pystr | QuizBtn pystr | TransBtn pystr pystr | KwBtn pystr
  | ClearCacheBtn

fun step :: "world \<Rightarrow> action \<Rightarrow> app_state \<Rightarrow> outcome \<times> app_state" where
  "step w (SumBtn text) s = sum_btn w text s"
| "step w (QaBtn context question) s = qa_btn w context question s"
| "step w (QuizBtn quiz_ctx) s = quiz_btn w quiz_ctx s"
| "step w (TransBtn trans_text lang) s = trans_btn w trans_text lang s"
| "step w (KwBtn keyword_input) s = kw_btn w keyword_input s"
| "step w ClearCacheBtn s = (CacheCleared, clear_cache s)"

fun run :: "world \<Rightarrow> action list \<Rightarrow> app_state \<Rightarrow> app_state" where
  "run w [] s = s"
| "run w (a # as) s = run w as (snd (step w a s))"

fun is_clear :: "action \<Rightarrow> bool" where
  "is_clear ClearCacheBtn = True"
| "is_clear _ = False"


section \<open>Download tab\<close>

text \<open>
  \<open>text.encode()\<close>: UTF-8, as a list of byte values. A surrogate code point (U+D800 to
  U+DFFF) cannot be encoded: the encoder raises \<open>UnicodeEncodeError\<close> for the run of
  surrogates that starts there, from the position of the first to the position behind the
  last.
\<close>

definition is_surrogate :: "nat \<Rightarrow> bool" where
  "is_surrogate c \<longleftrightarrow> 55296 \<le> c \<and> c < 57344"

definition encode_char :: "nat \<Rightarrow> nat list" where
  "encode_char c =
     (if c < 128 then [c]
      else if c < 2048 then [192 + c div 64, 128 + c mod 64]
      else if c < 65536 then [224 + c div 4096, 128 + c div 64 mod 64, 128 + c mod 64]
      else [240 + c div 262144, 128 + c div 4096 mod 64, 128 + c div 64 mod 64,
            128 + c mod 64])"

fun encode_from :: "nat \<Rightarrow> pystr \<Rightarrow> py_exn + nat list" where
  "encode_from i [] = Inr []"
| "encode_from i (c # cs) =
     (if is_surrogate c
      then Inl (UnicodeEncodeError i (i + length (takeWhile is_surrogate (c # cs))))
      else (case encode_from (Suc i) cs of
              Inl e \<Rightarrow> Inl e
            | Inr rest \<Rightarrow> Inr (encode_char c @ rest)))"

definition py_encode :: "pystr \<Rightarrow> py_exn + nat list" where
  "py_encode s = encode_from 0 s"

text \<open>
  \<open>base64.b64encode(bs).decode()\<close>. The 64 digits are the capital letters, the small
  letters, the decimal digits, plus and slash, in this order; code point 61 is the padding
  character.
\<close>

definition b64_digit :: "nat \<Rightarrow> nat" where
  "b64_digit n =
     (if n < 26 then of_char CHR ''A'' + n
      else if n < 52 then of_char CHR ''a'' + (n - 26)
      else if n < 62 then of_char CHR ''0'' + (n - 52)
      else if n = 62 then of_char CHR ''+''
      else of_char CHR ''/'')"

fun b64encode :: "nat list \<Rightarrow> pystr" where
  "b64encode [] = []"
| "b64encode [a] = [b64_digit (a div 4), b64_digit (a mod 4 * 16), 61, 61]"
| "b64encode [a, b] =
     [b64_digit (a div 4), b64_digit (a mod 4 * 16 + b div 16), b64_digit (b mod 16 * 4), 61]"
| "b64encode (a # b # c # bs) =
     [b64_digit (a div 4), b64_digit (a mod 4 * 16 + b div 16),
      b64_digit (b mod 16 * 4 + c div 64), b64_digit (c mod 64)] @ b64encode bs"

text \<open>
  \<open>download_link(text, filename, emoji)\<close> builds an anchor whose \<open>href\<close> is
  \<open>data:file/txt;base64,\<close> followed by the base64 form of the encoded text and whose
  \<open>download\<close> attribute is the file name. The pair of the two is kept; the styling and
  the emoji of the anchor are not.
\<close>

definition download_link :: "pystr \<Rightarrow> pystr \<Rightarrow> py_exn + pystr \<times> pystr" where
  "download_link text filename =
     (case py_encode text of
        Inl e \<Rightarrow> Inl e
      | Inr bs \<Rightarrow> Inr (lit ''data:file/txt;base64,'' @ b64encode bs, filename))"

text \<open>
  \<^verbatim>\<open>
  quiz_text = "\n\n".join([f"Question {i}: {q}"
                           for i, q in enumerate(st.session_state["quiz"], 1)])
  keywords_text = "Extracted Keywords:\n\n" + "\n".join(
                           [f"- {kw}" for kw in st.session_state["keywords"]])
  \<close>
  Code point 10 is the newline.
\<close>

definition quiz_text :: "pystr list \<Rightarrow> pystr" where
  "quiz_text qs =
     py_join [10, 10]
       [lit ''Question '' @ str_nat i @ lit '': '' @ q. (i, q) \<leftarrow> zip [1 ..< Suc (length qs)] qs]"

definition keywords_text :: "pystr list \<Rightarrow> pystr" where
  "keywords_text kws =
     lit ''Extracted Keywords:'' @ [10, 10] @ py_join [10] [lit ''- '' @ kw. kw \<leftarrow> kws]"

text \<open>
  The four slots of the tab, in the order in which the script reaches them: summary, quiz,
  translation, keywords. A slot is a link when the stored result is not empty, and nothing
  (a hint is shown) otherwise.
\<close>

definition download_slots :: "session_state \<Rightarrow> (py_exn + pystr \<times> pystr) option list" where
  "download_slots ss =
     [if ss_summary ss \<noteq> [] then Some (download_link (ss_summary ss) (lit ''summary.txt''))
      else None,
      if ss_quiz ss \<noteq> [] then Some (download_link (quiz_text (ss_quiz ss)) (lit ''quiz.txt''))
      else None,
      if ss_translation ss \<noteq> []
      then Some (download_link (ss_translation ss) (lit ''translation.txt'')) else None,
      if ss_keywords ss \<noteq> []
      then Some (download_link (keywords_text (ss_keywords ss)) (lit ''keywords.txt''))
      else None]"

text \<open>
  The tab has no \<open>try\<close>: the first link that cannot be built stops the script. What the
  tab shows is the slots rendered up to that point, and the exception if there was one.
\<close>

fun render_slots ::
  "(py_exn + pystr \<times> pystr) option list \<Rightarrow> (pystr \<times> pystr) option list \<times> py_exn option" where
  "render_slots [] = ([], None)"
| "render_slots (None # slots) =
     (case render_slots slots of (shown, stopped) \<Rightarrow> (None # shown, stopped))"
| "render_slots (Some (Inl e) # slots) = ([], Some e)"
| "render_slots (Some (Inr link) # slots) =
     (case render_slots slots of (shown, stopped) \<Rightarrow> (Some link # shown, stopped))"

definition download_tab ::
  "session_state \<Rightarrow> (pystr \<times> pystr) option list \<times> py_exn option" where
  "download_tab ss = render_slots (download_slots ss)"

text \<open>\<open>s.split('\n')\<close>, to speak about the lines of a rendering.\<close>

fun split_lines :: "pystr \<Rightarrow> pystr list" where
  "split_lines [] = [[]]"
| "split_lines (c # cs) =
     (if c = 10 then [] # split_lines cs
      else (c # hd (split_lines cs)) # tl (split_lines cs))"


section \<open>Readings of the specification, and sample worlds\<close>

text \<open>
  The languages offered by the select box of the Translate tab.
\<close>

definition languages :: "pystr list" where
  "languages = [lit ''French'', lit ''German'', lit ''Spanish'', lit ''Italian'', lit ''Hindi'']"

text \<open>
  The failure the specification calls a configuration error: the lookup of the language
  in \<open>model_map\<close> raised.
\<close>

fun is_configuration_error :: "outcome \<Rightarrow> bool" where
  "is_configuration_error (Failed (KeyError k)) = True"
| "is_configuration_error _ = False"

text \<open>
  The failures the specification calls insufficient input: the text is blank, or it is
  too short to summarise.
\<close>

fun is_insufficient_input :: "outcome \<Rightarrow> bool" where
  "is_insufficient_input EmptyInput = True"
| "is_insufficient_input TooFewWords = True"
| "is_insufficient_input _ = False"

text \<open>
  The quiz builder as the specification words it, "the first 5 sentences with length > 10
  characters": the long sentences are selected first, and five of them are kept.
\<close>

definition quiz_questions_spec :: "pystr list \<Rightarrow> pystr list" where
  "quiz_questions_spec sents = map quiz_prompt (take 5 (filter (\<lambda>s. 10 < length s) sents))"

text \<open>
  A world whose answers are scripted: \<open>loads n\<close> is what the \<open>n\<close>-th load of the process
  does, \<open>text_result\<close> what the summarizer, the translator and the question answerer
  return, \<open>sentences\<close> what the sentence tokenizer returns and \<open>classification\<close> what the
  classifier returns.
\<close>

definition scripted_world ::
  "(nat \<Rightarrow> py_exn + handle) \<Rightarrow> (py_exn + pystr) \<Rightarrow> (py_exn + pystr list) \<Rightarrow>
   (py_exn + pystr list \<times> real list) \<Rightarrow> world" where
  "scripted_world loads text_result sentences classification =
     \<lparr>pretrained = (\<lambda>k n. loads n),
      summarizer_call = (\<lambda>h t. text_result),
      qa_call = (\<lambda>h q c. case text_result of Inl e \<Rightarrow> Inl e | Inr a \<Rightarrow> Inr (a, 1)),
      sent_tokenize = (\<lambda>t. sentences),
      translator_call = (\<lambda>h t. text_result),
      classifier_call = (\<lambda>h t ls. classification)\<rparr>"

text \<open>
  Two ways a process can meet its model provider: every load succeeds, or the first load
  of the process fails and the later ones succeed.
\<close>

definition always_loads :: "nat \<Rightarrow> py_exn + handle" where
  "always_loads n = Inr 1"

definition fails_once :: "nat \<Rightarrow> py_exn + handle" where
  "fails_once n = (if n = 0 then Inl (Raised (lit ''connection reset'')) else Inr 1)"

text \<open>A text of 23 words, a short one, and sentences of both kinds.\<close>

definition sample_notes :: pystr where
  "sample_notes =
     lit ''Photosynthesis is the process by which green plants use sunlight water and carbon dioxide to make glucose and release oxygen into the air''"

definition short_notes :: pystr where
  "short_notes = lit ''Plants need light.''"

definition long_sentence :: "nat \<Rightarrow> pystr" where
  "long_sentence i = lit ''Sentence number '' @ str_nat i @ lit '' is long.''"

definition short_sentence :: pystr where
  "short_sentence = lit ''Why?''"


section \<open>Words, joining and stripping\<close>

lemma isspace_sp: "isspace 32" by (simp add: isspace_def)

lemma dropWhile_Cons_not: "dropWhile P xs = c # cs \<Longrightarrow> \<not> P c"
  using hd_dropWhile[of P xs] by auto

lemma py_split_blank: "dropWhile isspace s = [] \<Longrightarrow> py_split s = []"
  by (subst py_split.simps) (simp del: dropWhile_eq_Nil_conv)

lemma py_split_token:
  "dropWhile isspace s = c # cs \<Longrightarrow>
   py_split s = (c # takeWhile (\<lambda>x. \<not> isspace x) cs)
                  # py_split (dropWhile (\<lambda>x. \<not> isspace x) cs)"
  by (subst py_split.simps) simp

lemma py_split_Nil [code]: "py_split [] = []"
  by (simp add: py_split_blank)

lemma py_split_Cons [code]:
  "py_split (c # s) =
     (if isspace c then py_split s
      else (c # takeWhile (\<lambda>x. \<not> isspace x) s)
             # py_split (dropWhile (\<lambda>x. \<not> isspace x) s))"
proof (cases "isspace c")
  case True
  then show ?thesis
    by (subst py_split.simps, subst (2) py_split.simps) simp
next
  case False
  then show ?thesis by (simp add: py_split_token)
qed

lemmas py_split_eval = py_split_Nil py_split_Cons isspace_def lit_def

lemma py_split_words: "list_all word_like (py_split s)"
proof (induction s rule: py_split.induct)
  case (1 s)
  show ?case
  proof (cases "dropWhile isspace s")
    case Nil
    then show ?thesis by (simp add: py_split_blank del: dropWhile_eq_Nil_conv)
  next
    case (Cons c cs)
    have "\<not> isspace c"
      using Cons by (rule dropWhile_Cons_not)
    moreover have "list_all (\<lambda>x. \<not> isspace x) (takeWhile (\<lambda>x. \<not> isspace x) cs)"
      unfolding list_all_iff by (auto dest: set_takeWhileD)
    ultimately have "word_like (c # takeWhile (\<lambda>x. \<not> isspace x) cs)"
      by (simp add: word_like_def)
    with "1.IH"[OF Cons] show ?thesis
      by (simp add: py_split_token[OF Cons])
  qed
qed

text \<open>The words of a text are its non-whitespace characters, in order.\<close>

lemma concat_py_split: "concat (py_split s) = filter (\<lambda>c. \<not> isspace c) s"
proof (induction s rule: py_split.induct)
  case (1 s)
  have f: "filter (\<lambda>c. \<not> isspace c) s = filter (\<lambda>c. \<not> isspace c) (dropWhile isspace s)"
    by (induction s) simp_all
  show ?case
  proof (cases "dropWhile isspace s")
    case Nil
    then show ?thesis
      using f by (simp add: py_split_blank del: dropWhile_eq_Nil_conv)
  next
    case (Cons c cs)
    have nc: "\<not> isspace c"
      using Cons by (rule dropWhile_Cons_not)
    have "filter (\<lambda>c. \<not> isspace c) cs
          = takeWhile (\<lambda>x. \<not> isspace x) cs
            @ filter (\<lambda>c. \<not> isspace c) (dropWhile (\<lambda>x. \<not> isspace x) cs)"
      by (induction cs) simp_all
    with "1.IH"[OF Cons] nc show ?thesis
      by (simp add: py_split_token[OF Cons] f Cons)
  qed
qed

lemma py_split_word_then:
  assumes w: "word_like w" and r: "rest = [] \<or> isspace (hd rest)"
  shows "py_split (w @ rest) = w # py_split rest"
proof -
  from w obtain c w' where cw: "w = c # w'" and nc: "\<not> isspace c"
    and nw: "\<forall>x\<in>set w'. \<not> isspace x"
    by (cases w) (auto simp: word_like_def list_all_iff)
  have t: "takeWhile (\<lambda>x. \<not> isspace x) (w' @ rest) = w'"
    using nw r by (cases rest) (simp_all add: takeWhile_append2)
  have d: "dropWhile (\<lambda>x. \<not> isspace x) (w' @ rest) = rest"
    using nw r by (cases rest) (simp_all add: dropWhile_append2)
  have "dropWhile isspace (w @ rest) = c # (w' @ rest)"
    by (simp add: cw nc)
  from py_split_token[OF this] show ?thesis
    by (simp add: cw t d)
qed

lemma py_split_join:
  "list_all word_like ws \<Longrightarrow> py_split (py_join (lit '' '') ws) = ws"
proof (induction "lit '' ''" ws rule: py_join.induct)
  case 1
  then show ?case by (simp add: py_split_Nil)
next
  case (2 w)
  then show ?case
    using py_split_word_then[of w "[]"] by (simp add: py_split_Nil)
next
  case (3 w v ws)
  have "py_split (w @ lit '' '' @ py_join (lit '' '') (v # ws))
        = w # py_split (lit '' '' @ py_join (lit '' '') (v # ws))"
    using 3 by (intro py_split_word_then) (simp_all add: lit_def isspace_sp)
  also have "py_split (lit '' '' @ py_join (lit '' '') (v # ws))
        = py_split (py_join (lit '' '') (v # ws))"
    by (simp add: lit_def py_split_Cons isspace_sp)
  finally show ?case using 3 by simp
qed

lemma py_split_join_take:
  "py_split (py_join (lit '' '') (take n (py_split s))) = take n (py_split s)"
proof -
  have "list_all word_like (take n (py_split s))"
    using py_split_words[of s] unfolding list_all_iff by (auto dest: in_set_takeD)
  then show ?thesis by (rule py_split_join)
qed

lemma py_split_Nil_iff: "py_split s = [] \<longleftrightarrow> (\<forall>c\<in>set s. isspace c)"
proof (cases "dropWhile isspace s")
  case Nil
  then show ?thesis by (simp add: py_split_blank)
next
  case (Cons c cs)
  from py_split_token[OF Cons] have "py_split s \<noteq> []" by simp
  moreover have "\<not> (\<forall>c\<in>set s. isspace c)"
    using Cons by (simp add: dropWhile_eq_Nil_conv[symmetric] del: dropWhile_eq_Nil_conv)
  ultimately show ?thesis by simp
qed

lemma py_strip_Nil_iff: "py_strip s = [] \<longleftrightarrow> (\<forall>c\<in>set s. isspace c)"
proof
  assume "py_strip s = []"
  then have "\<forall>c\<in>set (dropWhile isspace s). isspace c"
    by (simp add: py_strip_def)
  then have "dropWhile isspace s = []"
    by (cases "dropWhile isspace s") (auto dest: dropWhile_Cons_not)
  then show "\<forall>c\<in>set s. isspace c"
    by simp
next
  assume "\<forall>c\<in>set s. isspace c"
  then have "dropWhile isspace s = []" by simp
  then show "py_strip s = []" by (simp add: py_strip_def del: dropWhile_eq_Nil_conv)
qed

lemma py_strip_Nil_split: "py_strip s = [] \<longleftrightarrow> py_split s = []"
  by (simp add: py_strip_Nil_iff py_split_Nil_iff)


section \<open>C1: the text normalizer\<close>

text \<open>
  Claim C1. For every text and every natural number \<open>n\<close>, \<open>truncate_text text n\<close> returns
  the first \<open>n\<close> whitespace-delimited words of the text joined by single spaces, together
  with a flag that is true exactly when the text has more than \<open>n\<close> words. Splitting the
  returned text gives back exactly those first \<open>n\<close> words, so it never has more than \<open>n\<close>
  words; every word is non-empty and free of whitespace; and a text that is empty or all
  whitespace gives the empty string with the flag false.
\<close>

theorem truncate_text_contract:
  "truncate_text text n
     = (py_join (lit '' '') (take n (py_split text)), n < length (py_split text))
   \<and> py_split (fst (truncate_text text n)) = take n (py_split text)
   \<and> length (py_split (fst (truncate_text text n))) \<le> n
   \<and> list_all word_like (py_split text)
   \<and> ((\<forall>c\<in>set text. isspace c) \<longrightarrow> truncate_text text n = ([], False))"
proof -
  have a: "truncate_text text n
     = (py_join (lit '' '') (take n (py_split text)), n < length (py_split text))"
    by (simp add: truncate_text_def Let_def)
  have b: "py_split (fst (truncate_text text n)) = take n (py_split text)"
    by (simp add: a py_split_join_take)
  have c: "length (py_split (fst (truncate_text text n))) \<le> n"
    by (simp add: b)
  have d: "(\<forall>c\<in>set text. isspace c) \<longrightarrow> truncate_text text n = ([], False)"
    by (simp add: a py_split_Nil_iff[symmetric])
  from a b c d py_split_words show ?thesis by blast
qed

theorem truncate_text_contract_witness:
  "list_all isspace (lit ''   '')
   \<and> truncate_text (lit ''   '') 3 = ([], False)
   \<and> py_split (fst (truncate_text (lit ''  to be   or not to be '') 4))
       = [lit ''to'', lit ''be'', lit ''or'', lit ''not'']"
proof -
  have h: "\<forall>c\<in>set (lit ''   ''). isspace c"
    by (simp add: lit_def isspace_def)
  from truncate_text_contract[of "lit ''   ''" 3]
  have "(\<forall>c\<in>set (lit ''   ''). isspace c) \<longrightarrow> truncate_text (lit ''   '') 3 = ([], False)"
    by (elim conjE)
  with h have blank: "truncate_text (lit ''   '') 3 = ([], False)"
    by (rule rev_mp)
  have e: "py_split (lit ''  to be   or not to be '')
           = [lit ''to'', lit ''be'', lit ''or'', lit ''not'', lit ''to'', lit ''be'']"
    by (simp add: py_split_eval)
  from truncate_text_contract[of "lit ''  to be   or not to be ''" 4]
  have "py_split (fst (truncate_text (lit ''  to be   or not to be '') 4))
        = take 4 (py_split (lit ''  to be   or not to be ''))"
    by (elim conjE)
  also have "\<dots> = [lit ''to'', lit ''be'', lit ''or'', lit ''not'']"
    by (simp add: e)
  finally have w: "py_split (fst (truncate_text (lit ''  to be   or not to be '') 4))
        = [lit ''to'', lit ''be'', lit ''or'', lit ''not'']" .
  from h have "list_all isspace (lit ''   '')"
    by (simp add: list_all_iff)
  with blank w show ?thesis by (intro conjI)
qed


section \<open>C6: the form of a quiz prompt\<close>

lemma get_first_words_short:
  "length (py_split s) \<le> n \<Longrightarrow> get_first_words s n = s"
  by (simp add: get_first_words_def Let_def)

lemma get_first_words_long:
  "n < length (py_split s) \<Longrightarrow>
   get_first_words s n = py_join (lit '' '') (take n (py_split s))"
  by (simp add: get_first_words_def Let_def)

lemma get_first_words_count: "length (py_split (get_first_words s n)) \<le> n"
proof (cases "length (py_split s) \<le> n")
  case True
  then show ?thesis by (simp add: get_first_words_short)
next
  case False
  then show ?thesis by (simp add: get_first_words_long py_split_join_take)
qed

text \<open>
  Claim C6. For every sentence \<open>s\<close> the prompt is the string
  \<open>What is the main concept in: '<f>'?\<close>, where \<open>f\<close> is the first 12 whitespace-delimited
  words of \<open>s\<close> joined by single spaces when \<open>s\<close> has more than 12 words, and \<open>f\<close> is the
  sentence \<open>s\<close> itself, unchanged, when it has 12 words or fewer. In both cases the quoted
  fragment has at most 12 words.
\<close>

theorem quiz_prompt_form:
  "quiz_prompt s
     = lit ''What is the main concept in: '' @ [39] @ get_first_words s 12 @ [39] @ lit ''?''
   \<and> (12 < length (py_split s) \<longrightarrow>
        get_first_words s 12 = py_join (lit '' '') (take 12 (py_split s)))
   \<and> (length (py_split s) \<le> 12 \<longrightarrow> get_first_words s 12 = s)
   \<and> length (py_split (get_first_words s 12)) \<le> 12"
  by (simp add: quiz_prompt_def get_first_words_short get_first_words_long
      get_first_words_count)

lemma split_fourteen:
  "py_split (lit ''The mitochondria is the organelle that makes most of the energy a cell needs'')
   = [lit ''The'', lit ''mitochondria'', lit ''is'', lit ''the'', lit ''organelle'', lit ''that'',
      lit ''makes'', lit ''most'', lit ''of'', lit ''the'', lit ''energy'', lit ''a'', lit ''cell'',
      lit ''needs'']"
  by (simp add: py_split_eval)

theorem quiz_prompt_form_witness:
  "12 < length (py_split (lit ''The mitochondria is the organelle that makes most of the energy a cell needs''))
   \<and> get_first_words (lit ''The mitochondria is the organelle that makes most of the energy a cell needs'') 12
       = lit ''The mitochondria is the organelle that makes most of the energy a''
   \<and> length (py_split short_notes) \<le> 12
   \<and> get_first_words short_notes 12 = short_notes"
proof -
  let ?s = "lit ''The mitochondria is the organelle that makes most of the energy a cell needs''"
  have l: "12 < length (py_split ?s)"
    by (simp add: split_fourteen)
  from quiz_prompt_form[of ?s] l
  have "get_first_words ?s 12 = py_join (lit '' '') (take 12 (py_split ?s))"
    by blast
  also have "\<dots> = lit ''The mitochondria is the organelle that makes most of the energy a''"
    by (simp add: split_fourteen) (simp add: lit_def)
  finally have a: "get_first_words ?s 12
       = lit ''The mitochondria is the organelle that makes most of the energy a''" .
  have sh: "length (py_split short_notes) \<le> 12"
    by (simp add: short_notes_def py_split_eval)
  from quiz_prompt_form[of short_notes] sh
  have b: "get_first_words short_notes 12 = short_notes"
    by blast
  from l a sh b show ?thesis by (intro conjI)
qed


section \<open>C2: which sentences get a prompt\<close>

lemma quiz_questions_eq:
  "quiz_questions sentences = map quiz_prompt (filter (\<lambda>s. 10 < length s) sentences)"
  by (induction sentences) (simp_all add: quiz_questions_def)

lemma quiz_questions_length: "length (quiz_questions (take 5 sents)) \<le> 5"
proof -
  have "length (filter (\<lambda>s. 10 < length s) (take 5 sents)) \<le> length (take 5 sents)"
    by (rule length_filter_le)
  then show ?thesis by (simp add: quiz_questions_eq)
qed

lemma quiz_btn_stores:
  assumes "py_strip text \<noteq> []"
    and "sent_tokenize w (fst (truncate_text text 200)) = Inr sents"
    and "quiz_questions (take 5 sents) \<noteq> []"
  shows "quiz_btn w text s
         = (Succeeded, s\<lparr>session := (session s)\<lparr>ss_quiz := quiz_questions (take 5 sents)\<rparr>\<rparr>)"
proof -
  from assms(3) have "take 5 sents \<noteq> []"
    by (auto simp: quiz_questions_def)
  with assms show ?thesis
    by (simp add: quiz_btn_def Let_def case_prod_beta)
qed

text \<open>
  Claim C2, as amended. The handler keeps the first five sentences of the tokenized text
  (all of them when there are fewer) and then produces one prompt, in text order, for each
  of those sentences that is longer than 10 characters. So there are never more than 5
  prompts; when the text has at least 5 sentences and the first five are all longer than
  10 characters there are exactly 5, one for each of them; and a non-empty list of
  prompts is what the handler stores, for a text normalized to at most 200 words.
\<close>

theorem quiz_builder_contract:
  "quiz_questions (take 5 sents)
     = map quiz_prompt (filter (\<lambda>s. 10 < length s) (take 5 sents))
   \<and> length (quiz_questions (take 5 sents)) \<le> 5
   \<and> (5 \<le> length sents \<and> list_all (\<lambda>s. 10 < length s) (take 5 sents) \<longrightarrow>
        quiz_questions (take 5 sents) = map quiz_prompt (take 5 sents)
        \<and> length (quiz_questions (take 5 sents)) = 5)
   \<and> (py_strip text \<noteq> [] \<and> sent_tokenize w (fst (truncate_text text 200)) = Inr sents
        \<and> quiz_questions (take 5 sents) \<noteq> [] \<longrightarrow>
        length (py_split (fst (truncate_text text 200))) \<le> 200
        \<and> quiz_btn w text s
            = (Succeeded,
               s\<lparr>session := (session s)\<lparr>ss_quiz := quiz_questions (take 5 sents)\<rparr>\<rparr>))"
proof -
  have c: "5 \<le> length sents \<and> list_all (\<lambda>s. 10 < length s) (take 5 sents) \<longrightarrow>
        quiz_questions (take 5 sents) = map quiz_prompt (take 5 sents)
        \<and> length (quiz_questions (take 5 sents)) = 5"
  proof
    assume h: "5 \<le> length sents \<and> list_all (\<lambda>s. 10 < length s) (take 5 sents)"
    then have "filter (\<lambda>s. 10 < length s) (take 5 sents) = take 5 sents"
      by (simp add: list_all_iff)
    with h show "quiz_questions (take 5 sents) = map quiz_prompt (take 5 sents)
        \<and> length (quiz_questions (take 5 sents)) = 5"
      by (simp add: quiz_questions_eq)
  qed
  have "length (py_split (fst (truncate_text text 200))) \<le> 200"
    by (simp add: truncate_text_def Let_def py_split_join_take)
  with quiz_questions_eq quiz_questions_length c quiz_btn_stores show ?thesis
    by blast
qed

lemma str_nat_digit: "n < 10 \<Longrightarrow> str_nat n = [48 + n]"
  by (subst str_nat.simps) simp

lemma long_sentence_length: "n < 10 \<Longrightarrow> length (long_sentence n) = 26"
  by (simp add: long_sentence_def str_nat_digit lit_def)

lemma short_sentence_length: "length short_sentence = 4"
  by (simp add: short_sentence_def lit_def)

theorem quiz_builder_contract_witness:
  "5 \<le> length (map long_sentence [1, 2, 3, 4, 5, 6, 7])
   \<and> list_all (\<lambda>s. 10 < length s) (take 5 (map long_sentence [1, 2, 3, 4, 5, 6, 7]))
   \<and> quiz_questions (take 5 (map long_sentence [1, 2, 3, 4, 5, 6, 7]))
       = map quiz_prompt (map long_sentence [1, 2, 3, 4, 5])
   \<and> length (quiz_questions (take 5 (map long_sentence [1, 2, 3, 4, 5, 6, 7]))) = 5"
proof -
  let ?sents = "map long_sentence [1, 2, 3, 4, 5, 6, 7]"
  have h1: "5 \<le> length ?sents" by simp
  have h2: "list_all (\<lambda>s. 10 < length s) (take 5 ?sents)"
    by (simp add: long_sentence_length)
  from quiz_builder_contract[of ?sents] h1 h2
  have "quiz_questions (take 5 ?sents) = map quiz_prompt (take 5 ?sents)
        \<and> length (quiz_questions (take 5 ?sents)) = 5"
    by blast
  moreover have "take 5 ?sents = map long_sentence [1, 2, 3, 4, 5]" by simp
  ultimately show ?thesis using h1 h2 by (simp del: list.map)
qed

text \<open>
  The claim as worded selects the long sentences before it counts five. On a short
  sentence followed by five long ones that reading yields five prompts, the handler four:
  the sixth sentence is cut off before the short one is dropped.
\<close>

theorem quiz_builder_counterexample:
  "length (quiz_questions (take 5 (short_sentence # map long_sentence [1, 2, 3, 4, 5]))) = 4
   \<and> length (quiz_questions_spec (short_sentence # map long_sentence [1, 2, 3, 4, 5])) = 5"
  by (simp add: quiz_questions_eq quiz_questions_spec_def long_sentence_length
      short_sentence_length)


section \<open>C3: the keyword selector\<close>

text \<open>
  The float that Python reads from \<open>0.3\<close> is 5404319552844595 / 2^54, a little below
  3/10. Between 1/4 and 1/2 every float is a multiple of 1 / 2^54, and among those
  multiples the two thresholds select the same ones; outside that interval both
  thresholds agree for every number.
\<close>

lemma threshold_agrees:
  fixes m :: int
  shows "(5404319552844595 / 2 ^ 54 < real_of_int m / 2 ^ 54)
         \<longleftrightarrow> (3 / 10 < real_of_int m / 2 ^ 54)"
proof -
  have "(5404319552844595 / 2 ^ 54 < real_of_int m / 2 ^ 54) \<longleftrightarrow> 5404319552844595 < m"
    by (simp add: divide_less_cancel)
  moreover have "(3 / 10 < real_of_int m / 2 ^ 54) \<longleftrightarrow> (54043195528445952 < 10 * m)"
  proof -
    have "(3 / 10 < real_of_int m / 2 ^ 54) \<longleftrightarrow> (3 * 2 ^ 54 < 10 * real_of_int m)"
      by (simp add: field_simps)
    also have "\<dots> \<longleftrightarrow> (real_of_int 54043195528445952 < real_of_int (10 * m))"
      by simp
    also have "\<dots> \<longleftrightarrow> (54043195528445952 < 10 * m)"
      by (simp only: of_int_less_iff)
    finally show ?thesis .
  qed
  ultimately show ?thesis by arith
qed

lemma threshold_agrees_outside:
  fixes x :: real
  shows "x < 1 / 4 \<or> 1 / 2 \<le> x \<Longrightarrow> (5404319552844595 / 2 ^ 54 < x) \<longleftrightarrow> (3 / 10 < x)"
  by (auto simp: field_simps)

lemma select_keywords_eq:
  "select_keywords (map fst ps) (map snd ps)
     = take 5 (map fst (filter (\<lambda>p. 0.3 < snd p) ps))"
proof -
  have "[lbl. (lbl, score) \<leftarrow> qs, 0.3 < score] = map fst (filter (\<lambda>p. 0.3 < snd p) qs)"
    for qs :: "(pystr \<times> real) list"
    by (induction qs) auto
  then show ?thesis
    by (simp add: select_keywords_def zip_map_fst_snd)
qed

lemma filter_sorted_desc:
  fixes ps :: "('a \<times> real) list"
  shows "sorted_wrt (\<ge>) (map snd ps) \<Longrightarrow>
         filter (\<lambda>p. t < snd p) ps = takeWhile (\<lambda>p. t < snd p) ps"
proof (induction ps)
  case Nil
  then show ?case by simp
next
  case (Cons p ps)
  show ?case
  proof (cases "t < snd p")
    case True
    with Cons show ?thesis by simp
  next
    case False
    from Cons.prems have "\<forall>q\<in>set ps. snd q \<le> snd p" by auto
    with False have "\<forall>q\<in>set ps. \<not> t < snd q" by fastforce
    then have "filter (\<lambda>p. t < snd p) ps = []" by (simp add: filter_empty_conv)
    with False show ?thesis by simp
  qed
qed

text \<open>
  Claim C3. Given the labels and scores of the classifier as a list of pairs, the selector
  returns the labels of the pairs whose score is above 0.3, in the order of the input, cut
  to the first 5. It never returns more than 5 labels, and every label it returns belongs
  to a pair whose score is above 0.3. When the scores come in descending order the pairs
  above 0.3 are an initial stretch of the input, so the result is the labels of the
  top-scored pairs in order. The classifier output science 0.81, education 0.55, history
  0.29, business 0.12 gives science and education.
\<close>

theorem keyword_selector_contract:
  "select_keywords (map fst ps) (map snd ps)
     = take 5 (map fst (filter (\<lambda>p. 0.3 < snd p) ps))
   \<and> length (select_keywords (map fst ps) (map snd ps)) \<le> 5
   \<and> (\<forall>l\<in>set (select_keywords (map fst ps) (map snd ps)). \<exists>sc. (l, sc) \<in> set ps \<and> 0.3 < sc)
   \<and> (list_all (\<lambda>p. 0 \<le> snd p \<and> snd p \<le> 1) ps \<and> sorted_wrt (\<ge>) (map snd ps) \<longrightarrow>
        select_keywords (map fst ps) (map snd ps)
          = map fst (take 5 (takeWhile (\<lambda>p. 0.3 < snd p) ps)))
   \<and> select_keywords [lit ''science'', lit ''education'', lit ''history'', lit ''business'']
        [0.81, 0.55, 0.29, 0.12]
       = [lit ''science'', lit ''education'']"
proof -
  have a: "select_keywords (map fst ps) (map snd ps)
     = take 5 (map fst (filter (\<lambda>p. 0.3 < snd p) ps))"
    by (rule select_keywords_eq)
  have b: "length (select_keywords (map fst ps) (map snd ps)) \<le> 5"
    by (simp add: a)
  have c: "\<forall>l\<in>set (select_keywords (map fst ps) (map snd ps)). \<exists>sc. (l, sc) \<in> set ps \<and> 0.3 < sc"
  proof
    fix l
    assume "l \<in> set (select_keywords (map fst ps) (map snd ps))"
    then have "l \<in> set (map fst (filter (\<lambda>p. 0.3 < snd p) ps))"
      unfolding a by (rule in_set_takeD)
    then show "\<exists>sc. (l, sc) \<in> set ps \<and> 0.3 < sc" by auto
  qed
  have d: "list_all (\<lambda>p. 0 \<le> snd p \<and> snd p \<le> 1) ps \<and> sorted_wrt (\<ge>) (map snd ps) \<longrightarrow>
        select_keywords (map fst ps) (map snd ps)
          = map fst (take 5 (takeWhile (\<lambda>p. 0.3 < snd p) ps))"
  proof
    assume "list_all (\<lambda>p. 0 \<le> snd p \<and> snd p \<le> 1) ps \<and> sorted_wrt (\<ge>) (map snd ps)"
    then have "filter (\<lambda>p. 0.3 < snd p) ps = takeWhile (\<lambda>p. 0.3 < snd p) ps"
      by (intro filter_sorted_desc) (rule conjunct2)
    then show "select_keywords (map fst ps) (map snd ps)
          = map fst (take 5 (takeWhile (\<lambda>p. 0.3 < snd p) ps))"
      by (simp only: a take_map)
  qed
  have e: "select_keywords [lit ''science'', lit ''education'', lit ''history'', lit ''business'']
        [0.81, 0.55, 0.29, 0.12]
       = [lit ''science'', lit ''education'']"
    by (simp add: select_keywords_def)
  from a b c d e show ?thesis by (intro conjI)
qed

theorem keyword_selector_contract_witness:
  "list_all (\<lambda>p. 0 \<le> snd p \<and> snd p \<le> 1)
     [(lit ''science'', 0.81), (lit ''education'', 0.55), (lit ''history'', 0.29),
      (lit ''business'', 0.12 :: real)]
   \<and> sorted_wrt (\<ge>) [0.81, 0.55, 0.29, 0.12 :: real]
   \<and> select_keywords [lit ''science'', lit ''education'', lit ''history'', lit ''business'']
        [0.81, 0.55, 0.29, 0.12]
       = map fst [(lit ''science'', 0.81 :: real), (lit ''education'', 0.55)]"
proof -
  let ?ps = "[(lit ''science'', 0.81), (lit ''education'', 0.55), (lit ''history'', 0.29),
      (lit ''business'', 0.12 :: real)]"
  have h1: "list_all (\<lambda>p. 0 \<le> snd p \<and> snd p \<le> 1) ?ps" by simp
  have h2: "sorted_wrt (\<ge>) (map snd ?ps)" by simp
  from keyword_selector_contract[of ?ps] h1 h2
  have "select_keywords (map fst ?ps) (map snd ?ps)
          = map fst (take 5 (takeWhile (\<lambda>p. 0.3 < snd p) ?ps))"
    by blast
  then have "select_keywords [lit ''science'', lit ''education'', lit ''history'', lit ''business'']
        [0.81, 0.55, 0.29, 0.12]
       = map fst [(lit ''science'', 0.81 :: real), (lit ''education'', 0.55)]"
    by simp
  with h1 h2 show ?thesis by simp
qed


section \<open>What a cached load changes\<close>

lemma cache_resource_hit:
  "model_cache s k = Some v \<Longrightarrow> cache_resource body k s = (v, s)"
  by (simp add: cache_resource_def)

lemma cache_resource_miss:
  "model_cache s k = None \<Longrightarrow>
   cache_resource body k s
     = (body (length (load_log s)),
        s\<lparr>model_cache := (model_cache s)(k \<mapsto> body (length (load_log s))),
          load_log := load_log s @ [k]\<rparr>)"
  by (simp add: cache_resource_def Let_def)

lemma cache_resource_session [simp]:
  "session (snd (cache_resource body k s)) = session s"
  by (simp add: cache_resource_def Let_def split: option.splits)

lemma cache_resource_infer_log [simp]:
  "infer_log (snd (cache_resource body k s)) = infer_log s"
  by (simp add: cache_resource_def Let_def split: option.splits)

lemma infer_session [simp]: "session (infer k s) = session s"
  by (simp add: infer_def)

lemma infer_cache [simp]: "model_cache (infer k s) = model_cache s"
  by (simp add: infer_def)

lemma infer_load_log [simp]: "load_log (infer k s) = load_log s"
  by (simp add: infer_def)

lemmas loader_defs = get_summarizer_def get_qa_def get_classifier_def load_translator_def

section \<open>C5: too few words to summarise\<close>

lemma normalized_count:
  "length (py_split (fst (truncate_text text n))) = min n (length (py_split text))"
  by (simp add: truncate_text_def Let_def py_split_join_take min.commute)

text \<open>
  Claim C5. When the text, after truncation to 400 words, has fewer than 20 words, the
  Summarize handler ends in an insufficient-input failure (the blank-text error when the
  text is blank, the 20-word error otherwise) and leaves the whole state as it was: no
  loader ran, no pipeline was called, nothing was stored. The count after truncation is
  below 20 exactly when the count of the text itself is.
\<close>

theorem summarize_needs_twenty_words:
  "(length (py_split (fst (truncate_text text 400))) < 20 \<longrightarrow>
      is_insufficient_input (fst (sum_btn w text s))
      \<and> fst (sum_btn w text s) = (if py_strip text = [] then EmptyInput else TooFewWords)
      \<and> snd (sum_btn w text s) = s
      \<and> load_log (snd (sum_btn w text s)) = load_log s
      \<and> infer_log (snd (sum_btn w text s)) = infer_log s)
   \<and> (length (py_split (fst (truncate_text text 400))) < 20 \<longleftrightarrow> length (py_split text) < 20)"
proof -
  have "length (py_split (fst (truncate_text text 400))) < 20 \<longrightarrow>
          sum_btn w text s = (if py_strip text = [] then EmptyInput else TooFewWords, s)"
    by (simp add: sum_btn_def Let_def case_prod_beta)
  moreover have "length (py_split (fst (truncate_text text 400))) < 20
                 \<longleftrightarrow> length (py_split text) < 20"
    unfolding normalized_count by arith
  ultimately show ?thesis by simp
qed

lemma split_short_notes: "py_split short_notes = [lit ''Plants'', lit ''need'', lit ''light.'']"
  by (simp add: short_notes_def py_split_eval)

theorem summarize_needs_twenty_words_witness:
  "length (py_split (fst (truncate_text short_notes 400))) < 20
   \<and> fst (sum_btn (scripted_world always_loads (Inr sample_notes) (Inr []) (Inr ([], [])))
            short_notes initial_state) = TooFewWords
   \<and> snd (sum_btn (scripted_world always_loads (Inr sample_notes) (Inr []) (Inr ([], [])))
            short_notes initial_state) = initial_state"
proof -
  let ?w = "scripted_world always_loads (Inr sample_notes) (Inr []) (Inr ([], []))"
  have h: "length (py_split (fst (truncate_text short_notes 400))) < 20"
    by (simp add: normalized_count split_short_notes)
  have n: "py_strip short_notes \<noteq> []"
    by (simp add: py_strip_Nil_split split_short_notes)
  from summarize_needs_twenty_words[of short_notes ?w initial_state] h n
  have "fst (sum_btn ?w short_notes initial_state) = TooFewWords
        \<and> snd (sum_btn ?w short_notes initial_state) = initial_state"
    by simp
  with h show ?thesis by simp
qed


section \<open>C8: a language that is not offered\<close>

lemma model_map_dom: "dom model_map = set languages"
  by (simp add: model_map_def languages_def dom_map_of_conv_image_fst)

lemma model_map_None: "lang \<notin> set languages \<Longrightarrow> model_map lang = None"
  using model_map_dom by blast

text \<open>
  Claim C8. A Translate invocation carries a text that is not blank, as every request to
  the pipeline does. For such an invocation with a target language outside French,
  German, Spanish, Italian and Hindi (Klingon, say), the handler fails with the lookup
  error of \<open>model_map\<close>, the configuration error, and the state is left as it was: no
  loader ran. A blank text never reaches the lookup: the handler ends in the blank-text
  error, again with no loader run.
\<close>

theorem translate_unsupported_language:
  "lang \<notin> set languages \<longrightarrow>
     model_map lang = None
     \<and> (py_strip text \<noteq> [] \<longrightarrow>
          fst (trans_btn w text lang s) = Failed (KeyError lang)
          \<and> is_configuration_error (fst (trans_btn w text lang s)))
     \<and> (py_strip text = [] \<longrightarrow> fst (trans_btn w text lang s) = EmptyInput)
     \<and> snd (trans_btn w text lang s) = s
     \<and> load_log (snd (trans_btn w text lang s)) = load_log s"
proof
  assume "lang \<notin> set languages"
  then have n: "model_map lang = None" by (rule model_map_None)
  have "trans_btn w text lang s
        = (if py_strip text = [] then EmptyInput else Failed (KeyError lang), s)"
    by (simp add: trans_btn_def n case_prod_beta)
  with n show "model_map lang = None
     \<and> (py_strip text \<noteq> [] \<longrightarrow>
          fst (trans_btn w text lang s) = Failed (KeyError lang)
          \<and> is_configuration_error (fst (trans_btn w text lang s)))
     \<and> (py_strip text = [] \<longrightarrow> fst (trans_btn w text lang s) = EmptyInput)
     \<and> snd (trans_btn w text lang s) = s
     \<and> load_log (snd (trans_btn w text lang s)) = load_log s"
    by simp
qed

lemma klingon_not_offered: "lit ''Klingon'' \<notin> set languages"
  by (simp add: languages_def lit_def)

theorem translate_unsupported_language_witness:
  "lit ''Klingon'' \<notin> set languages
   \<and> py_strip short_notes \<noteq> []
   \<and> trans_btn (scripted_world always_loads (Inr sample_notes) (Inr []) (Inr ([], [])))
        short_notes (lit ''Klingon'') initial_state
       = (Failed (KeyError (lit ''Klingon'')), initial_state)"
proof -
  let ?w = "scripted_world always_loads (Inr sample_notes) (Inr []) (Inr ([], []))"
  have n: "py_strip short_notes \<noteq> []"
    by (simp add: py_strip_Nil_split split_short_notes)
  from translate_unsupported_language[of "lit ''Klingon''" short_notes ?w initial_state]
    klingon_not_offered n
  have "fst (trans_btn ?w short_notes (lit ''Klingon'') initial_state)
          = Failed (KeyError (lit ''Klingon''))
        \<and> snd (trans_btn ?w short_notes (lit ''Klingon'') initial_state) = initial_state"
    by blast
  then have "trans_btn ?w short_notes (lit ''Klingon'') initial_state
       = (Failed (KeyError (lit ''Klingon'')), initial_state)"
    by (simp add: prod_eq_iff)
  with klingon_not_offered n show ?thesis by (intro conjI)
qed

section \<open>C9: a failure leaves the session state alone\<close>

lemma sum_btn_session:
  "fst (sum_btn w text s) \<noteq> Succeeded \<Longrightarrow> session (snd (sum_btn w text s)) = session s"
  by (simp add: sum_btn_def get_summarizer_def Let_def case_prod_beta
      split: if_splits option.splits sum.splits)

lemma qa_btn_session: "session (snd (qa_btn w context question s)) = session s"
  by (simp add: qa_btn_def get_qa_def Let_def case_prod_beta
      split: option.splits sum.splits)

lemma quiz_btn_session:
  "fst (quiz_btn w text s) \<noteq> Succeeded \<Longrightarrow> session (snd (quiz_btn w text s)) = session s"
  by (simp add: quiz_btn_def Let_def case_prod_beta split: if_splits sum.splits)

lemma trans_btn_session:
  "fst (trans_btn w text lang s) \<noteq> Succeeded \<Longrightarrow>
   session (snd (trans_btn w text lang s)) = session s"
  by (simp add: trans_btn_def load_translator_def Let_def case_prod_beta
      split: if_splits option.splits sum.splits)

lemma kw_btn_session:
  "fst (kw_btn w text s) \<noteq> Succeeded \<Longrightarrow> session (snd (kw_btn w text s)) = session s"
  by (auto simp: kw_btn_def get_classifier_def Let_def case_prod_beta
      split: if_splits option.splits sum.splits)

text \<open>
  Claim C9. Whatever the button, the text and the world: when the invocation does not end
  in success (the input is rejected, the model is unavailable, the pipeline or the
  tokenizer raises, or nothing is produced), the session state after it is the session
  state before it. Only an invocation that ends in success writes to the store.
\<close>

theorem failure_keeps_session:
  "fst (step w a s) \<noteq> Succeeded \<longrightarrow> session (snd (step w a s)) = session s"
proof (cases a)
  case (SumBtn t)
  then show ?thesis by (simp add: sum_btn_session)
next
  case (QaBtn ctx q)
  then show ?thesis by (simp add: qa_btn_session)
next
  case (QuizBtn t)
  then show ?thesis by (simp add: quiz_btn_session)
next
  case (TransBtn t lang)
  then show ?thesis by (simp add: trans_btn_session)
next
  case (KwBtn t)
  then show ?thesis by (simp add: kw_btn_session)
next
  case ClearCacheBtn
  then show ?thesis by (simp add: clear_cache_def)
qed

lemma split_sample_notes: "length (py_split sample_notes) = 23"
  by (simp add: sample_notes_def py_split_eval)

lemma sample_notes_accepted:
  "py_strip sample_notes \<noteq> [] \<and> \<not> length (py_split (fst (truncate_text sample_notes 400))) < 20"
proof -
  have "py_split sample_notes \<noteq> []"
    using split_sample_notes by auto
  then show ?thesis
    by (simp add: py_strip_Nil_split normalized_count split_sample_notes)
qed

lemma sum_btn_accepted:
  assumes "py_strip text \<noteq> []"
    and "\<not> length (py_split (fst (truncate_text text 400))) < 20"
  shows "sum_btn w text s =
     (case fst (get_summarizer w s) of
        None \<Rightarrow> (ModelUnavailable, snd (get_summarizer w s))
      | Some h \<Rightarrow>
          (case summarizer_call w h (fst (truncate_text text 400)) of
             Inl e \<Rightarrow> (Failed e, infer SummarizerModel (snd (get_summarizer w s)))
           | Inr result \<Rightarrow>
               (Succeeded,
                (infer SummarizerModel (snd (get_summarizer w s)))
                  \<lparr>session := (session (snd (get_summarizer w s)))\<lparr>ss_summary := result\<rparr>\<rparr>)))"
  using assms by (simp add: sum_btn_def Let_def case_prod_beta)

lemma scripted_calls:
  "pretrained (scripted_world l t ss c) = (\<lambda>k n. l n)"
  "summarizer_call (scripted_world l t ss c) = (\<lambda>h x. t)"
  "sent_tokenize (scripted_world l t ss c) = (\<lambda>x. ss)"
  "translator_call (scripted_world l t ss c) = (\<lambda>h x. t)"
  "classifier_call (scripted_world l t ss c) = (\<lambda>h x ls. c)"
  by (simp_all add: scripted_world_def)

lemma out_of_memory_run:
  "sum_btn (scripted_world always_loads (Inl (Raised (lit ''out of memory''))) (Inr []) (Inr ([], [])))
     sample_notes initial_state
   = (Failed (Raised (lit ''out of memory'')),
      initial_state\<lparr>model_cache := [SummarizerModel \<mapsto> Some 1],
                     load_log := [SummarizerModel], infer_log := [SummarizerModel]\<rparr>)"
proof -
  let ?w = "scripted_world always_loads (Inl (Raised (lit ''out of memory''))) (Inr []) (Inr ([], []))"
  have g: "get_summarizer ?w initial_state
        = (Some 1, initial_state\<lparr>model_cache := [SummarizerModel \<mapsto> Some 1],
                                 load_log := [SummarizerModel]\<rparr>)"
    by (simp add: get_summarizer_def cache_resource_def load_pipeline_def scripted_calls
        always_loads_def initial_state_def Let_def)
  show ?thesis
    using sample_notes_accepted
    by (simp add: sum_btn_accepted g scripted_calls infer_def) (simp add: initial_state_def)
qed

theorem failure_keeps_session_witness:
  "fst (step (scripted_world always_loads (Inl (Raised (lit ''out of memory''))) (Inr []) (Inr ([], [])))
          (SumBtn sample_notes) initial_state) = Failed (Raised (lit ''out of memory''))
   \<and> session (snd (step (scripted_world always_loads (Inl (Raised (lit ''out of memory''))) (Inr [])
                            (Inr ([], [])))
                      (SumBtn sample_notes) initial_state)) = initial_session"
proof -
  let ?w = "scripted_world always_loads (Inl (Raised (lit ''out of memory''))) (Inr []) (Inr ([], []))"
  have o: "fst (step ?w (SumBtn sample_notes) initial_state) = Failed (Raised (lit ''out of memory''))"
    by (simp add: out_of_memory_run)
  then have "fst (step ?w (SumBtn sample_notes) initial_state) \<noteq> Succeeded"
    by simp
  with failure_keeps_session[of ?w "SumBtn sample_notes" initial_state]
  have "session (snd (step ?w (SumBtn sample_notes) initial_state)) = session initial_state"
    by (rule mp)
  also have "\<dots> = initial_session" by (simp add: initial_state_def)
  finally show ?thesis using o by (intro conjI)
qed


section \<open>C10: an empty result does not replace a stored one\<close>

lemma quiz_questions_Nil:
  "list_all (\<lambda>x. length x \<le> 10) sentences \<Longrightarrow> quiz_questions sentences = []"
  by (simp add: quiz_questions_eq list_all_iff filter_empty_conv not_less)

lemma select_keywords_Nil:
  assumes "list_all (\<lambda>sc. sc \<le> 0.3) scores"
  shows "select_keywords labels scores = []"
proof -
  have e: "[lbl. (lbl, score) \<leftarrow> ps, 0.3 < score] = []" if "\<forall>p\<in>set ps. snd p \<le> 0.3"
    for ps :: "(pystr \<times> real) list"
    using that by (induction ps) auto
  have "\<forall>p\<in>set (zip labels scores). snd p \<le> 0.3"
  proof
    fix p
    assume "p \<in> set (zip labels scores)"
    then have "(fst p, snd p) \<in> set (zip labels scores)"
      by simp
    then have "snd p \<in> set scores"
      by (rule set_zip_rightD)
    with assms show "snd p \<le> 0.3"
      unfolding list_all_iff by blast
  qed
  then have "[lbl. (lbl, score) \<leftarrow> zip labels scores, 0.3 < score] = []"
    by (rule e)
  then show ?thesis by (simp only: select_keywords_def take_Nil)
qed

lemma quiz_btn_nothing:
  assumes "py_strip text \<noteq> []"
    and "sent_tokenize w (fst (truncate_text text 200)) = Inr sents"
    and "quiz_questions (take 5 sents) = []"
  shows "quiz_btn w text s = (if take 5 sents = [] then NoSentences else NoQuestions, s)"
  using assms by (simp add: quiz_btn_def Let_def case_prod_beta)

lemma kw_btn_nothing:
  assumes "py_strip text \<noteq> []"
    and "fst (get_classifier w s) = Some h"
    and "classifier_call w h (fst (truncate_text text 200)) candidate_labels = Inr (labels, scores)"
    and "select_keywords labels scores = []"
  shows "kw_btn w text s = (NoKeywords, infer ClassifierModel (snd (get_classifier w s)))"
  using assms by (simp add: kw_btn_def Let_def case_prod_beta)

text \<open>
  Claim C10. When a Quiz invocation yields no prompt (the tokenizer returns sentences of
  which none of the first five is longer than 10 characters, or none at all), the handler
  ends in a warning and returns the state unchanged, so the quiz stored before is still
  there and the Download tab offers what it offered before. When a Keywords invocation
  selects no label (every score is at most 0.3), the handler ends in the "no strong
  keywords" notice; the session state, and with it the Download tab, is as before.
\<close>

theorem empty_result_keeps_entry:
  "(py_strip text \<noteq> [] \<and> sent_tokenize w (fst (truncate_text text 200)) = Inr sents
      \<and> quiz_questions (take 5 sents) = [] \<longrightarrow>
      (fst (quiz_btn w text s) = NoSentences \<or> fst (quiz_btn w text s) = NoQuestions)
      \<and> snd (quiz_btn w text s) = s
      \<and> ss_quiz (session (snd (quiz_btn w text s))) = ss_quiz (session s)
      \<and> download_tab (session (snd (quiz_btn w text s))) = download_tab (session s))
   \<and> (list_all (\<lambda>x. length x \<le> 10) (take 5 sents) \<longrightarrow> quiz_questions (take 5 sents) = [])
   \<and> (py_strip text \<noteq> [] \<and> fst (get_classifier w s) = Some h
      \<and> classifier_call w h (fst (truncate_text text 200)) candidate_labels = Inr (labels, scores)
      \<and> select_keywords labels scores = [] \<longrightarrow>
      fst (kw_btn w text s) = NoKeywords
      \<and> session (snd (kw_btn w text s)) = session s
      \<and> ss_keywords (session (snd (kw_btn w text s))) = ss_keywords (session s)
      \<and> download_tab (session (snd (kw_btn w text s))) = download_tab (session s))
   \<and> (list_all (\<lambda>sc. sc \<le> 0.3) scores \<longrightarrow> select_keywords labels scores = [])"
proof -
  have q: "py_strip text \<noteq> [] \<and> sent_tokenize w (fst (truncate_text text 200)) = Inr sents
      \<and> quiz_questions (take 5 sents) = [] \<longrightarrow>
      (fst (quiz_btn w text s) = NoSentences \<or> fst (quiz_btn w text s) = NoQuestions)
      \<and> snd (quiz_btn w text s) = s
      \<and> ss_quiz (session (snd (quiz_btn w text s))) = ss_quiz (session s)
      \<and> download_tab (session (snd (quiz_btn w text s))) = download_tab (session s)"
    by (simp add: quiz_btn_nothing)
  have k: "py_strip text \<noteq> [] \<and> fst (get_classifier w s) = Some h
      \<and> classifier_call w h (fst (truncate_text text 200)) candidate_labels = Inr (labels, scores)
      \<and> select_keywords labels scores = [] \<longrightarrow>
      fst (kw_btn w text s) = NoKeywords
      \<and> session (snd (kw_btn w text s)) = session s
      \<and> ss_keywords (session (snd (kw_btn w text s))) = ss_keywords (session s)
      \<and> download_tab (session (snd (kw_btn w text s))) = download_tab (session s)"
    by (simp add: kw_btn_nothing get_classifier_def)
  from q k quiz_questions_Nil select_keywords_Nil show ?thesis by blast
qed

theorem empty_result_keeps_entry_witness:
  "py_strip short_notes \<noteq> []
   \<and> list_all (\<lambda>x. length x \<le> 10) (take 5 [short_sentence, short_sentence])
   \<and> quiz_btn (scripted_world always_loads (Inr []) (Inr [short_sentence, short_sentence])
                 (Inr ([], [])))
        short_notes
        (initial_state\<lparr>session := initial_session\<lparr>ss_quiz := [quiz_prompt sample_notes]\<rparr>\<rparr>)
       = (NoQuestions,
          initial_state\<lparr>session := initial_session\<lparr>ss_quiz := [quiz_prompt sample_notes]\<rparr>\<rparr>)"
proof -
  let ?w = "scripted_world always_loads (Inr []) (Inr [short_sentence, short_sentence])
              (Inr ([], []))"
  let ?s = "initial_state\<lparr>session := initial_session\<lparr>ss_quiz := [quiz_prompt sample_notes]\<rparr>\<rparr>"
  have n: "py_strip short_notes \<noteq> []"
    by (simp add: py_strip_Nil_split split_short_notes)
  have l: "list_all (\<lambda>x. length x \<le> 10) (take 5 [short_sentence, short_sentence])"
    by (simp add: short_sentence_length)
  have t: "sent_tokenize ?w (fst (truncate_text short_notes 200))
           = Inr [short_sentence, short_sentence]"
    by (simp add: scripted_calls)
  from empty_result_keeps_entry[of short_notes ?w "[short_sentence, short_sentence]" ?s] l
  have e: "quiz_questions (take 5 [short_sentence, short_sentence]) = []"
    by blast
  from empty_result_keeps_entry[of short_notes ?w "[short_sentence, short_sentence]" ?s] n t e
  have r: "(fst (quiz_btn ?w short_notes ?s) = NoSentences
            \<or> fst (quiz_btn ?w short_notes ?s) = NoQuestions)
           \<and> snd (quiz_btn ?w short_notes ?s) = ?s"
    by blast
  have "fst (quiz_btn ?w short_notes ?s) \<noteq> NoSentences"
    using n t by (simp add: quiz_btn_def Let_def case_prod_beta)
  with r have "quiz_btn ?w short_notes ?s = (NoQuestions, ?s)"
    by (simp add: prod_eq_iff)
  with n l show ?thesis by (intro conjI)
qed


section \<open>C7: the rendering of stored keywords\<close>

lemma encode_from_ascii: "list_all (\<lambda>c. c < 128) s \<Longrightarrow> encode_from i s = Inr s"
  by (induction s arbitrary: i) (simp_all add: encode_char_def is_surrogate_def)

lemma py_encode_ascii: "list_all (\<lambda>c. c < 128) s \<Longrightarrow> py_encode s = Inr s"
  by (simp add: py_encode_def encode_from_ascii)

lemma split_lines_plain: "10 \<notin> set a \<Longrightarrow> split_lines a = [a]"
  by (induction a) simp_all

lemma split_lines_line: "10 \<notin> set a \<Longrightarrow> split_lines (a @ 10 # b) = a # split_lines b"
  by (induction a) simp_all

lemma split_lines_join:
  "ws \<noteq> [] \<Longrightarrow> list_all (\<lambda>w. 10 \<notin> set w) ws \<Longrightarrow> split_lines (py_join [10] ws) = ws"
proof (induction "[10::nat]" ws rule: py_join.induct)
  case 1
  then show ?case by simp
next
  case (2 w)
  then show ?case by (simp add: split_lines_plain)
next
  case (3 w v ws)
  then show ?case by (simp add: split_lines_line)
qed

lemma keywords_text_lines:
  assumes "kws \<noteq> []" and "list_all (\<lambda>kw. 10 \<notin> set kw) kws"
  shows "split_lines (keywords_text kws)
         = lit ''Extracted Keywords:'' # [] # map (\<lambda>kw. lit ''- '' @ kw) kws"
proof -
  let ?items = "map (\<lambda>kw. lit ''- '' @ kw) kws"
  have h: "10 \<notin> set (lit ''Extracted Keywords:'')"
    by (simp add: lit_def)
  have i: "list_all (\<lambda>w. 10 \<notin> set w) ?items"
    using assms(2) by (simp add: list_all_iff lit_def)
  have "split_lines (keywords_text kws)
        = split_lines (lit ''Extracted Keywords:'' @ 10 # (10 # py_join [10] ?items))"
    by (simp add: keywords_text_def)
  also have "split_lines (lit ''Extracted Keywords:'' @ 10 # (10 # py_join [10] ?items))
        = lit ''Extracted Keywords:'' # split_lines (10 # py_join [10] ?items)"
    using h by (rule split_lines_line)
  also have "split_lines (10 # py_join [10] ?items) = [] # split_lines (py_join [10] ?items)"
    by simp
  also have "split_lines (py_join [10] ?items) = ?items"
    using assms(1) i by (intro split_lines_join) simp_all
  finally show ?thesis .
qed

lemma b64_example:
  "b64encode (lit ''Extracted Keywords:'' @ [10, 10] @ lit ''- science'' @ [10] @ lit ''- education'')
   = lit ''RXh0cmFjdGVkIEtleXdvcmRzOgoKLSBzY2llbmNlCi0gZWR1Y2F0aW9u''"
proof -
  have "lit ''Extracted Keywords:'' @ [10, 10] @ lit ''- science'' @ [10] @ lit ''- education''
        = [69, 120, 116, 114, 97, 99, 116, 101, 100, 32, 75, 101, 121, 119, 111, 114, 100, 115,
           58, 10, 10, 45, 32, 115, 99, 105, 101, 110, 99, 101, 10, 45, 32, 101, 100, 117, 99,
           97, 116, 105, 111, 110]"
    by (simp add: lit_def)
  moreover have "lit ''RXh0cmFjdGVkIEtleXdvcmRzOgoKLSBzY2llbmNlCi0gZWR1Y2F0aW9u''
        = [82, 88, 104, 48, 99, 109, 70, 106, 100, 71, 86, 107, 73, 69, 116, 108, 101, 88, 100,
           118, 99, 109, 82, 122, 79, 103, 111, 75, 76, 83, 66, 122, 89, 50, 108, 108, 98, 109,
           78, 108, 67, 105, 48, 103, 90, 87, 82, 49, 89, 50, 70, 48, 97, 87, 57, 117]"
    by (simp add: lit_def)
  moreover have "b64encode [69, 120, 116, 114, 97, 99, 116, 101, 100, 32, 75, 101, 121, 119, 111, 114, 100, 115,
           58, 10, 10, 45, 32, 115, 99, 105, 101, 110, 99, 101, 10, 45, 32, 101, 100, 117, 99,
           97, 116, 105, 111, 110]
        = [82, 88, 104, 48, 99, 109, 70, 106, 100, 71, 86, 107, 73, 69, 116, 108, 101, 88, 100,
           118, 99, 109, 82, 122, 79, 103, 111, 75, 76, 83, 66, 122, 89, 50, 108, 108, 98, 109,
           78, 108, 67, 105, 48, 103, 90, 87, 82, 49, 89, 50, 70, 48, 97, 87, 57, 117]"
    by (simp add: b64_digit_def)
  ultimately show ?thesis by (simp only:)
qed

text \<open>
  Claim C7. The text rendered for a stored keyword list is the line
  \<open>Extracted Keywords:\<close>, an empty line, and one line \<open>- <keyword>\<close> for each keyword in
  order, joined by newlines. For the stored list science, education it is exactly
  \<open>Extracted Keywords:\n\n- science\n- education\<close>; its encoding is the same sequence as
  bytes, and the link of the Download tab carries these bytes, in base64, under the name
  \<open>keywords.txt\<close>.
\<close>

theorem keywords_rendering:
  "keywords_text [lit ''science'', lit ''education'']
     = lit ''Extracted Keywords:'' @ [10, 10] @ lit ''- science'' @ [10] @ lit ''- education''
   \<and> py_encode (keywords_text [lit ''science'', lit ''education''])
       = Inr (lit ''Extracted Keywords:'' @ [10, 10] @ lit ''- science'' @ [10] @ lit ''- education'')
   \<and> download_tab (initial_session\<lparr>ss_keywords := [lit ''science'', lit ''education'']\<rparr>)
       = ([None, None, None,
           Some (lit ''data:file/txt;base64,''
                   @ lit ''RXh0cmFjdGVkIEtleXdvcmRzOgoKLSBzY2llbmNlCi0gZWR1Y2F0aW9u'',
                 lit ''keywords.txt'')],
          None)
   \<and> keywords_text kws
       = lit ''Extracted Keywords:'' @ [10, 10] @ py_join [10] (map (\<lambda>kw. lit ''- '' @ kw) kws)
   \<and> (kws \<noteq> [] \<and> list_all (\<lambda>kw. 10 \<notin> set kw) kws \<longrightarrow>
        split_lines (keywords_text kws)
          = lit ''Extracted Keywords:'' # [] # map (\<lambda>kw. lit ''- '' @ kw) kws)"
proof -
  let ?out = "lit ''Extracted Keywords:'' @ [10, 10] @ lit ''- science'' @ [10] @ lit ''- education''"
  have a: "keywords_text [lit ''science'', lit ''education''] = ?out"
    by (simp add: keywords_text_def lit_def)
  have "list_all (\<lambda>c. c < 128) ?out"
    by (simp add: lit_def)
  then have "py_encode ?out = Inr ?out"
    by (rule py_encode_ascii)
  then have b: "py_encode (keywords_text [lit ''science'', lit ''education'']) = Inr ?out"
    by (simp only: a)
  have dl: "download_link (keywords_text [lit ''science'', lit ''education'']) (lit ''keywords.txt'')
       = Inr (lit ''data:file/txt;base64,''
                @ lit ''RXh0cmFjdGVkIEtleXdvcmRzOgoKLSBzY2llbmNlCi0gZWR1Y2F0aW9u'',
              lit ''keywords.txt'')"
    by (simp only: download_link_def b sum.case b64_example)
  have c: "download_tab (initial_session\<lparr>ss_keywords := [lit ''science'', lit ''education'']\<rparr>)
       = ([None, None, None,
           Some (lit ''data:file/txt;base64,''
                   @ lit ''RXh0cmFjdGVkIEtleXdvcmRzOgoKLSBzY2llbmNlCi0gZWR1Y2F0aW9u'',
                 lit ''keywords.txt'')],
          None)"
    by (simp add: download_tab_def download_slots_def initial_session_def dl)
  have d: "keywords_text kws
       = lit ''Extracted Keywords:'' @ [10, 10] @ py_join [10] (map (\<lambda>kw. lit ''- '' @ kw) kws)"
    by (simp add: keywords_text_def)
  have e: "kws \<noteq> [] \<and> list_all (\<lambda>kw. 10 \<notin> set kw) kws \<longrightarrow>
        split_lines (keywords_text kws)
          = lit ''Extracted Keywords:'' # [] # map (\<lambda>kw. lit ''- '' @ kw) kws"
    using keywords_text_lines[of kws] by (intro impI) (elim conjE)
  from a b c d e show ?thesis
    by (intro conjI)
qed

theorem keywords_rendering_witness:
  "[lit ''science'', lit ''education''] \<noteq> []
   \<and> list_all (\<lambda>kw. 10 \<notin> set kw) [lit ''science'', lit ''education'']
   \<and> split_lines (keywords_text [lit ''science'', lit ''education''])
       = [lit ''Extracted Keywords:'', [], lit ''- science'', lit ''- education'']"
proof -
  have h: "list_all (\<lambda>kw. 10 \<notin> set kw) [lit ''science'', lit ''education'']"
    by (simp add: lit_def)
  have ne: "[lit ''science'', lit ''education''] \<noteq> ([] :: pystr list)"
    by simp
  from keywords_rendering[of "[lit ''science'', lit ''education'']"]
  have "[lit ''science'', lit ''education''] \<noteq> []
          \<and> list_all (\<lambda>kw. 10 \<notin> set kw) [lit ''science'', lit ''education''] \<longrightarrow>
        split_lines (keywords_text [lit ''science'', lit ''education''])
          = lit ''Extracted Keywords:'' # [] # map (\<lambda>kw. lit ''- '' @ kw)
              [lit ''science'', lit ''education'']"
    by (elim conjE)
  moreover have "[lit ''science'', lit ''education''] \<noteq> []
          \<and> list_all (\<lambda>kw. 10 \<notin> set kw) [lit ''science'', lit ''education'']"
    using ne h by (intro conjI)
  ultimately
  have "split_lines (keywords_text [lit ''science'', lit ''education''])
          = lit ''Extracted Keywords:'' # [] # map (\<lambda>kw. lit ''- '' @ kw)
              [lit ''science'', lit ''education'']"
    by (rule mp)
  then have "split_lines (keywords_text [lit ''science'', lit ''education''])
       = [lit ''Extracted Keywords:'', [], lit ''- science'', lit ''- education'']"
    by (simp add: lit_def)
  with h show ?thesis by simp
qed


section \<open>C4: the model cache as a state machine\<close>

lemma cache_resource_keeps:
  assumes "model_cache s k = Some v"
  shows "model_cache (snd (cache_resource body k' s)) k = Some v
         \<and> count_list (load_log (snd (cache_resource body k' s))) k = count_list (load_log s) k"
proof (cases "model_cache s k'")
  case None
  with assms have "k' \<noteq> k" by auto
  with None assms show ?thesis by (simp add: cache_resource_miss)
next
  case (Some u)
  with assms show ?thesis by (simp add: cache_resource_hit)
qed

lemma cache_resource_logged:
  assumes "distinct (load_log s)" and "set (load_log s) \<subseteq> dom (model_cache s)"
  shows "distinct (load_log (snd (cache_resource body k s)))
         \<and> set (load_log (snd (cache_resource body k s)))
             \<subseteq> dom (model_cache (snd (cache_resource body k s)))"
proof (cases "model_cache s k")
  case None
  with assms(2) have "k \<notin> set (load_log s)" by auto
  with None assms show ?thesis by (auto simp: cache_resource_miss)
next
  case (Some u)
  with assms show ?thesis by (simp add: cache_resource_hit)
qed

text \<open>
  A button other than the cache-clear button touches the cache and the load log only
  through one call of a cached loader, or not at all.
\<close>

lemma step_loader:
  assumes "\<not> is_clear a"
  shows "(model_cache (snd (step w a s)) = model_cache s
          \<and> load_log (snd (step w a s)) = load_log s)
         \<or> (\<exists>k. model_cache (snd (step w a s))
                   = model_cache (snd (cache_resource (load_pipeline w k) k s))
                 \<and> load_log (snd (step w a s))
                   = load_log (snd (cache_resource (load_pipeline w k) k s)))"
proof (cases a)
  case (SumBtn t)
  then show ?thesis
    by (auto simp: sum_btn_def get_summarizer_def Let_def case_prod_beta
        split: option.splits sum.splits)
next
  case (QaBtn c q)
  then show ?thesis
    by (auto simp: qa_btn_def get_qa_def Let_def case_prod_beta
        split: option.splits sum.splits)
next
  case (QuizBtn t)
  then show ?thesis
    by (auto simp: quiz_btn_def Let_def case_prod_beta split: sum.splits)
next
  case (TransBtn t lang)
  then show ?thesis
    by (auto simp: trans_btn_def load_translator_def Let_def case_prod_beta
        split: option.splits sum.splits)
next
  case (KwBtn t)
  then show ?thesis
    by (auto simp: kw_btn_def get_classifier_def Let_def case_prod_beta
        split: option.splits sum.splits)
next
  case ClearCacheBtn
  with assms show ?thesis by simp
qed

lemma step_keeps:
  assumes "\<not> is_clear a" and "model_cache s k = Some v"
  shows "model_cache (snd (step w a s)) k = Some v
         \<and> count_list (load_log (snd (step w a s))) k = count_list (load_log s) k"
proof -
  from step_loader[OF assms(1), of w s]
  consider
    (same) "model_cache (snd (step w a s)) = model_cache s"
           "load_log (snd (step w a s)) = load_log s"
  | (load) k' where
      "model_cache (snd (step w a s))
         = model_cache (snd (cache_resource (load_pipeline w k') k' s))"
      "load_log (snd (step w a s))
         = load_log (snd (cache_resource (load_pipeline w k') k' s))"
    by blast
  then show ?thesis
  proof cases
    case same
    with assms(2) show ?thesis by simp
  next
    case load
    with cache_resource_keeps[OF assms(2), of "load_pipeline w k'" k'] show ?thesis
      by simp
  qed
qed

lemma step_logged:
  assumes "\<not> is_clear a" and "distinct (load_log s)"
    and "set (load_log s) \<subseteq> dom (model_cache s)"
  shows "distinct (load_log (snd (step w a s)))
         \<and> set (load_log (snd (step w a s))) \<subseteq> dom (model_cache (snd (step w a s)))"
proof -
  from step_loader[OF assms(1), of w s]
  consider
    (same) "model_cache (snd (step w a s)) = model_cache s"
           "load_log (snd (step w a s)) = load_log s"
  | (load) k' where
      "model_cache (snd (step w a s))
         = model_cache (snd (cache_resource (load_pipeline w k') k' s))"
      "load_log (snd (step w a s))
         = load_log (snd (cache_resource (load_pipeline w k') k' s))"
    by blast
  then show ?thesis
  proof cases
    case same
    with assms(2,3) show ?thesis by simp
  next
    case load
    with cache_resource_logged[OF assms(2,3), of "load_pipeline w k'" k'] show ?thesis
      by simp
  qed
qed

lemma run_keeps:
  "list_all (\<lambda>a. \<not> is_clear a) acts \<Longrightarrow> model_cache s k = Some v \<Longrightarrow>
   model_cache (run w acts s) k = Some v
   \<and> count_list (load_log (run w acts s)) k = count_list (load_log s) k"
proof (induction acts arbitrary: s)
  case Nil
  then show ?case by simp
next
  case (Cons a acts)
  from Cons.prems have na: "\<not> is_clear a" and rest: "list_all (\<lambda>a. \<not> is_clear a) acts"
    by simp_all
  from step_keeps[OF na Cons.prems(2), of w]
  have 1: "model_cache (snd (step w a s)) k = Some v"
    and 2: "count_list (load_log (snd (step w a s))) k = count_list (load_log s) k"
    by simp_all
  from Cons.IH[OF rest 1] 2 show ?case by simp
qed

lemma run_logged:
  "list_all (\<lambda>a. \<not> is_clear a) acts \<Longrightarrow> distinct (load_log s) \<Longrightarrow>
   set (load_log s) \<subseteq> dom (model_cache s) \<Longrightarrow>
   distinct (load_log (run w acts s))"
proof (induction acts arbitrary: s)
  case Nil
  then show ?case by simp
next
  case (Cons a acts)
  from Cons.prems have na: "\<not> is_clear a" and rest: "list_all (\<lambda>a. \<not> is_clear a) acts"
    by simp_all
  from step_logged[OF na Cons.prems(2,3), of w]
  have 1: "distinct (load_log (snd (step w a s)))"
    and 2: "set (load_log (snd (step w a s))) \<subseteq> dom (model_cache (snd (step w a s)))"
    by simp_all
  from Cons.IH[OF rest 1 2] show ?case by simp
qed

lemma distinct_count_le_1: "distinct xs \<Longrightarrow> count_list xs x \<le> 1"
  by (induction xs) (auto simp: count_list_0_iff)

lemma failed_load_is_cached:
  assumes "model_cache s k = None" and "pretrained w k (length (load_log s)) = Inl e"
  shows "cache_resource (load_pipeline w k) k s
         = (None, s\<lparr>model_cache := (model_cache s)(k \<mapsto> None), load_log := load_log s @ [k]\<rparr>)"
  using assms by (simp add: cache_resource_miss load_pipeline_def)


lemma sum_btn_unavailable:
  assumes "model_cache s SummarizerModel = Some None" and "py_strip text \<noteq> []"
    and "\<not> length (py_split (fst (truncate_text text 400))) < 20"
  shows "sum_btn w text s = (ModelUnavailable, s)"
  using assms by (simp add: sum_btn_accepted get_summarizer_def cache_resource_hit)

lemma trans_btn_unavailable:
  assumes "model_map lang = Some name" and "model_cache s (TranslatorModel name) = Some None"
    and "py_strip text \<noteq> []"
  shows "trans_btn w text lang s = (ModelUnavailable, s)"
  using assms
  by (simp add: trans_btn_def load_translator_def cache_resource_hit case_prod_beta)

lemma qa_btn_unavailable:
  assumes "model_cache s QAModel = Some None" and "py_strip ctx \<noteq> []"
    and "py_strip qn \<noteq> []"
  shows "qa_btn w ctx qn s = (ModelUnavailable, s)"
  using assms by (simp add: qa_btn_def get_qa_def cache_resource_hit case_prod_beta)

lemma kw_btn_unavailable:
  assumes "model_cache s ClassifierModel = Some None" and "py_strip text \<noteq> []"
  shows "kw_btn w text s = (ModelUnavailable, s)"
  using assms by (simp add: kw_btn_def get_classifier_def cache_resource_hit case_prod_beta)

lemma sum_btn_load_fails:
  assumes "model_cache s SummarizerModel = None"
    and "pretrained w SummarizerModel (length (load_log s)) = Inl e"
    and "py_strip text \<noteq> []"
    and "\<not> length (py_split (fst (truncate_text text 400))) < 20"
  shows "sum_btn w text s
         = (ModelUnavailable,
            s\<lparr>model_cache := (model_cache s)(SummarizerModel \<mapsto> None),
              load_log := load_log s @ [SummarizerModel]\<rparr>)"
  using assms
  by (simp add: sum_btn_accepted get_summarizer_def failed_load_is_cached)

lemma qa_btn_load_fails:
  assumes "model_cache s QAModel = None"
    and "pretrained w QAModel (length (load_log s)) = Inl e"
    and "py_strip ctx \<noteq> []" and "py_strip qn \<noteq> []"
  shows "qa_btn w ctx qn s
         = (ModelUnavailable,
            s\<lparr>model_cache := (model_cache s)(QAModel \<mapsto> None),
              load_log := load_log s @ [QAModel]\<rparr>)"
  using assms
  by (simp add: qa_btn_def get_qa_def failed_load_is_cached case_prod_beta)

lemma trans_btn_load_fails:
  assumes "model_map lang = Some name" and "model_cache s (TranslatorModel name) = None"
    and "pretrained w (TranslatorModel name) (length (load_log s)) = Inl e"
    and "py_strip text \<noteq> []"
  shows "trans_btn w text lang s
         = (ModelUnavailable,
            s\<lparr>model_cache := (model_cache s)(TranslatorModel name \<mapsto> None),
              load_log := load_log s @ [TranslatorModel name]\<rparr>)"
  using assms
  by (simp add: trans_btn_def load_translator_def failed_load_is_cached case_prod_beta)

lemma kw_btn_load_fails:
  assumes "model_cache s ClassifierModel = None"
    and "pretrained w ClassifierModel (length (load_log s)) = Inl e"
    and "py_strip text \<noteq> []"
  shows "kw_btn w text s
         = (ModelUnavailable,
            s\<lparr>model_cache := (model_cache s)(ClassifierModel \<mapsto> None),
              load_log := load_log s @ [ClassifierModel]\<rparr>)"
  using assms
  by (simp add: kw_btn_def get_classifier_def failed_load_is_cached case_prod_beta)

lemma cache_resource_absent:
  assumes "model_cache s k = Some None"
  shows "fst (cache_resource body k' s) = Some h \<Longrightarrow> k' \<noteq> k"
  using assms by (auto simp: cache_resource_hit)

lemma infer_log_infer: "infer_log (infer k' s) = infer_log s @ [k']"
  by (simp add: infer_def)

lemma step_no_inference:
  assumes "\<not> is_clear a" and "model_cache s k = Some None"
  shows "count_list (infer_log (snd (step w a s))) k = count_list (infer_log s) k"
proof (cases a)
  case (SumBtn t)
  then show ?thesis
    using cache_resource_absent[OF assms(2), of "load_pipeline w SummarizerModel" SummarizerModel]
    by (auto simp: sum_btn_def get_summarizer_def Let_def case_prod_beta infer_log_infer
        split: option.splits sum.splits)
next
  case (QaBtn c q)
  then show ?thesis
    using cache_resource_absent[OF assms(2), of "load_pipeline w QAModel" QAModel]
    by (auto simp: qa_btn_def get_qa_def Let_def case_prod_beta infer_log_infer
        split: option.splits sum.splits)
next
  case (QuizBtn t)
  then show ?thesis
    by (auto simp: quiz_btn_def Let_def case_prod_beta split: sum.splits)
next
  case (TransBtn t lang)
  show ?thesis
  proof (cases "model_map lang")
    case None
    with TransBtn show ?thesis by (simp add: trans_btn_def case_prod_beta)
  next
    case (Some name)
    with TransBtn show ?thesis
      using cache_resource_absent[OF assms(2),
          of "load_pipeline w (TranslatorModel name)" "TranslatorModel name"]
      by (auto simp: trans_btn_def load_translator_def Let_def case_prod_beta infer_log_infer
          split: option.splits sum.splits)
  qed
next
  case (KwBtn t)
  then show ?thesis
    using cache_resource_absent[OF assms(2), of "load_pipeline w ClassifierModel" ClassifierModel]
    by (auto simp: kw_btn_def get_classifier_def Let_def case_prod_beta infer_log_infer
        split: option.splits sum.splits)
next
  case ClearCacheBtn
  with assms show ?thesis by simp
qed

lemma run_no_inference:
  "list_all (\<lambda>a. \<not> is_clear a) acts \<Longrightarrow> model_cache s k = Some None \<Longrightarrow>
   count_list (infer_log (run w acts s)) k = count_list (infer_log s) k"
proof (induction acts arbitrary: s)
  case Nil
  then show ?case by simp
next
  case (Cons a acts)
  from Cons.prems have na: "\<not> is_clear a" and rest: "list_all (\<lambda>a. \<not> is_clear a) acts"
    by simp_all
  from step_keeps[OF na Cons.prems(2), of w]
  have 1: "model_cache (snd (step w a s)) k = Some None" by simp
  from step_no_inference[OF na Cons.prems(2), of w]
  have 2: "count_list (infer_log (snd (step w a s))) k = count_list (infer_log s) k" .
  from Cons.IH[OF rest 1] 2 show ?case by simp
qed

text \<open>
  Claim C4, as amended. Over any run of button presses that does not include the
  cache-clear button, started at process start, the loader of each key runs at most once,
  whether that load succeeds or fails. A load that fails is reported and its result, the
  absent pipeline, is stored under the key like any other result: the press whose load
  fails, be it Summarize, Q&A, Translate or Keywords, ends as "model unavailable", with
  the absent pipeline stored, the load logged, and no pipeline called. An entry, once
  stored, stays as it is and its loader is not run again. While the entry of a key is the
  absent pipeline no press calls the pipeline of that key, and every Summarize, Q&A,
  Translate or Keywords press for it ends as "model unavailable" and leaves the state
  as it was. Only the cache-clear button removes the entries, and the invocation after it
  runs the loader again.
\<close>

theorem model_cache_state_machine:
  "(list_all (\<lambda>a. \<not> is_clear a) acts \<longrightarrow>
      count_list (load_log (run w acts initial_state)) k \<le> 1)
   \<and> (model_cache s k = None \<and> pretrained w k (length (load_log s)) = Inl e \<longrightarrow>
        fst (cache_resource (load_pipeline w k) k s) = None
        \<and> model_cache (snd (cache_resource (load_pipeline w k) k s)) k = Some None
        \<and> load_log (snd (cache_resource (load_pipeline w k) k s)) = load_log s @ [k])
   \<and> (model_cache s k = Some v \<and> list_all (\<lambda>a. \<not> is_clear a) acts \<longrightarrow>
        model_cache (run w acts s) k = Some v
        \<and> count_list (load_log (run w acts s)) k = count_list (load_log s) k)
   \<and> (model_cache s SummarizerModel = Some None \<and> py_strip text \<noteq> []
        \<and> \<not> length (py_split (fst (truncate_text text 400))) < 20 \<longrightarrow>
        sum_btn w text s = (ModelUnavailable, s))
   \<and> (model_map lang = Some name \<and> model_cache s (TranslatorModel name) = Some None
        \<and> py_strip text \<noteq> [] \<longrightarrow>
        trans_btn w text lang s = (ModelUnavailable, s))
   \<and> model_cache (clear_cache s) k = None
   \<and> load_log (snd (cache_resource (load_pipeline w k) k (clear_cache s))) = load_log s @ [k]
   \<and> (model_cache s QAModel = Some None \<and> py_strip ctx \<noteq> [] \<and> py_strip qn \<noteq> [] \<longrightarrow>
        qa_btn w ctx qn s = (ModelUnavailable, s))
   \<and> (model_cache s ClassifierModel = Some None \<and> py_strip text \<noteq> [] \<longrightarrow>
        kw_btn w text s = (ModelUnavailable, s))
   \<and> (model_cache s k = Some None \<and> list_all (\<lambda>a. \<not> is_clear a) acts \<longrightarrow>
        count_list (infer_log (run w acts s)) k = count_list (infer_log s) k)
   \<and> (model_cache s SummarizerModel = None
        \<and> pretrained w SummarizerModel (length (load_log s)) = Inl e
        \<and> py_strip text \<noteq> [] \<and> \<not> length (py_split (fst (truncate_text text 400))) < 20 \<longrightarrow>
        sum_btn w text s
          = (ModelUnavailable,
             s\<lparr>model_cache := (model_cache s)(SummarizerModel \<mapsto> None),
               load_log := load_log s @ [SummarizerModel]\<rparr>))
   \<and> (model_cache s QAModel = None \<and> pretrained w QAModel (length (load_log s)) = Inl e
        \<and> py_strip ctx \<noteq> [] \<and> py_strip qn \<noteq> [] \<longrightarrow>
        qa_btn w ctx qn s
          = (ModelUnavailable,
             s\<lparr>model_cache := (model_cache s)(QAModel \<mapsto> None),
               load_log := load_log s @ [QAModel]\<rparr>))
   \<and> (model_map lang = Some name \<and> model_cache s (TranslatorModel name) = None
        \<and> pretrained w (TranslatorModel name) (length (load_log s)) = Inl e
        \<and> py_strip text \<noteq> [] \<longrightarrow>
        trans_btn w text lang s
          = (ModelUnavailable,
             s\<lparr>model_cache := (model_cache s)(TranslatorModel name \<mapsto> None),
               load_log := load_log s @ [TranslatorModel name]\<rparr>))
   \<and> (model_cache s ClassifierModel = None
        \<and> pretrained w ClassifierModel (length (load_log s)) = Inl e
        \<and> py_strip text \<noteq> [] \<longrightarrow>
        kw_btn w text s
          = (ModelUnavailable,
             s\<lparr>model_cache := (model_cache s)(ClassifierModel \<mapsto> None),
               load_log := load_log s @ [ClassifierModel]\<rparr>))"
proof -
  have once: "list_all (\<lambda>a. \<not> is_clear a) acts \<longrightarrow>
      count_list (load_log (run w acts initial_state)) k \<le> 1"
  proof
    assume "list_all (\<lambda>a. \<not> is_clear a) acts"
    then have "distinct (load_log (run w acts initial_state))"
      by (rule run_logged) (simp_all add: initial_state_def)
    then show "count_list (load_log (run w acts initial_state)) k \<le> 1"
      by (rule distinct_count_le_1)
  qed
  have failed: "model_cache s k = None \<and> pretrained w k (length (load_log s)) = Inl e \<longrightarrow>
        fst (cache_resource (load_pipeline w k) k s) = None
        \<and> model_cache (snd (cache_resource (load_pipeline w k) k s)) k = Some None
        \<and> load_log (snd (cache_resource (load_pipeline w k) k s)) = load_log s @ [k]"
    by (simp add: failed_load_is_cached)
  have sticky: "model_cache s k = Some v \<and> list_all (\<lambda>a. \<not> is_clear a) acts \<longrightarrow>
        model_cache (run w acts s) k = Some v
        \<and> count_list (load_log (run w acts s)) k = count_list (load_log s) k"
    using run_keeps[of acts s k v w] by blast
  have sumb: "model_cache s SummarizerModel = Some None \<and> py_strip text \<noteq> []
        \<and> \<not> length (py_split (fst (truncate_text text 400))) < 20 \<longrightarrow>
        sum_btn w text s = (ModelUnavailable, s)"
    using sum_btn_unavailable by blast
  have transb: "model_map lang = Some name \<and> model_cache s (TranslatorModel name) = Some None
        \<and> py_strip text \<noteq> [] \<longrightarrow>
        trans_btn w text lang s = (ModelUnavailable, s)"
    using trans_btn_unavailable by blast
  have cleared: "model_cache (clear_cache s) k = None"
    by (simp add: clear_cache_def)
  have again: "load_log (snd (cache_resource (load_pipeline w k) k (clear_cache s)))
               = load_log s @ [k]"
    by (simp add: cache_resource_miss cleared) (simp add: clear_cache_def)
  have qab: "model_cache s QAModel = Some None \<and> py_strip ctx \<noteq> [] \<and> py_strip qn \<noteq> [] \<longrightarrow>
        qa_btn w ctx qn s = (ModelUnavailable, s)"
    using qa_btn_unavailable by blast
  have kwb: "model_cache s ClassifierModel = Some None \<and> py_strip text \<noteq> [] \<longrightarrow>
        kw_btn w text s = (ModelUnavailable, s)"
    using kw_btn_unavailable by blast
  have quiet: "model_cache s k = Some None \<and> list_all (\<lambda>a. \<not> is_clear a) acts \<longrightarrow>
        count_list (infer_log (run w acts s)) k = count_list (infer_log s) k"
    using run_no_inference[of acts s k w] by blast
  have sumf: "model_cache s SummarizerModel = None
        \<and> pretrained w SummarizerModel (length (load_log s)) = Inl e
        \<and> py_strip text \<noteq> [] \<and> \<not> length (py_split (fst (truncate_text text 400))) < 20 \<longrightarrow>
        sum_btn w text s
          = (ModelUnavailable,
             s\<lparr>model_cache := (model_cache s)(SummarizerModel \<mapsto> None),
               load_log := load_log s @ [SummarizerModel]\<rparr>)"
    using sum_btn_load_fails by blast
  have qaf: "model_cache s QAModel = None \<and> pretrained w QAModel (length (load_log s)) = Inl e
        \<and> py_strip ctx \<noteq> [] \<and> py_strip qn \<noteq> [] \<longrightarrow>
        qa_btn w ctx qn s
          = (ModelUnavailable,
             s\<lparr>model_cache := (model_cache s)(QAModel \<mapsto> None),
               load_log := load_log s @ [QAModel]\<rparr>)"
    using qa_btn_load_fails by blast
  have transf: "model_map lang = Some name \<and> model_cache s (TranslatorModel name) = None
        \<and> pretrained w (TranslatorModel name) (length (load_log s)) = Inl e
        \<and> py_strip text \<noteq> [] \<longrightarrow>
        trans_btn w text lang s
          = (ModelUnavailable,
             s\<lparr>model_cache := (model_cache s)(TranslatorModel name \<mapsto> None),
               load_log := load_log s @ [TranslatorModel name]\<rparr>)"
    using trans_btn_load_fails by blast
  have kwf: "model_cache s ClassifierModel = None
        \<and> pretrained w ClassifierModel (length (load_log s)) = Inl e
        \<and> py_strip text \<noteq> [] \<longrightarrow>
        kw_btn w text s
          = (ModelUnavailable,
             s\<lparr>model_cache := (model_cache s)(ClassifierModel \<mapsto> None),
               load_log := load_log s @ [ClassifierModel]\<rparr>)"
    using kw_btn_load_fails by blast
  from once failed sticky sumb transb cleared again qab kwb quiet sumf qaf transf kwf
  show ?thesis
    by (intro conjI)
qed

lemma flaky_first_press:
  "sum_btn (scripted_world fails_once (Inr short_notes) (Inr []) (Inr ([], [])))
     sample_notes initial_state
   = (ModelUnavailable,
      initial_state\<lparr>model_cache := [SummarizerModel \<mapsto> None], load_log := [SummarizerModel]\<rparr>)"
proof -
  let ?w = "scripted_world fails_once (Inr short_notes) (Inr []) (Inr ([], []))"
  have g: "get_summarizer ?w initial_state
        = (None, initial_state\<lparr>model_cache := [SummarizerModel \<mapsto> None],
                               load_log := [SummarizerModel]\<rparr>)"
    by (simp add: get_summarizer_def cache_resource_def load_pipeline_def scripted_calls
        fails_once_def initial_state_def Let_def)
  show ?thesis
    using sample_notes_accepted by (simp add: sum_btn_accepted g)
qed

text \<open>
  The claim as worded has the cache hold no entry after a failed load, and the next
  invocation load again. In a world where only the first load of the process fails, the
  first Summarize leaves the entry \<open>None\<close> under the summarizer's key, and the second
  Summarize, whose load would have succeeded, finds that entry and does not load: the load
  log still has one entry.
\<close>

theorem model_cache_counterexample:
  "pretrained (scripted_world fails_once (Inr short_notes) (Inr []) (Inr ([], [])))
     SummarizerModel 0 = Inl (Raised (lit ''connection reset''))
   \<and> pretrained (scripted_world fails_once (Inr short_notes) (Inr []) (Inr ([], [])))
       SummarizerModel 1 = Inr 1
   \<and> model_cache (run (scripted_world fails_once (Inr short_notes) (Inr []) (Inr ([], [])))
                    [SumBtn sample_notes] initial_state) SummarizerModel = Some None
   \<and> fst (step (scripted_world fails_once (Inr short_notes) (Inr []) (Inr ([], [])))
            (SumBtn sample_notes)
            (run (scripted_world fails_once (Inr short_notes) (Inr []) (Inr ([], [])))
               [SumBtn sample_notes] initial_state)) = ModelUnavailable
   \<and> load_log (run (scripted_world fails_once (Inr short_notes) (Inr []) (Inr ([], [])))
                 [SumBtn sample_notes, SumBtn sample_notes] initial_state) = [SummarizerModel]"
proof -
  let ?w = "scripted_world fails_once (Inr short_notes) (Inr []) (Inr ([], []))"
  let ?s1 = "initial_state\<lparr>model_cache := [SummarizerModel \<mapsto> None],
                           load_log := [SummarizerModel]\<rparr>"
  have r1: "run ?w [SumBtn sample_notes] initial_state = ?s1"
    by (simp add: flaky_first_press)
  have c1: "model_cache ?s1 SummarizerModel = Some None"
    by simp
  have p2: "sum_btn ?w sample_notes ?s1 = (ModelUnavailable, ?s1)"
    using c1 sample_notes_accepted by (intro sum_btn_unavailable) simp_all
  have r2: "run ?w [SumBtn sample_notes, SumBtn sample_notes] initial_state = ?s1"
    by (simp add: flaky_first_press p2)
  show ?thesis
    by (simp only: r1 r2) (simp add: p2 scripted_calls fails_once_def)
qed

theorem model_cache_state_machine_witness:
  "list_all (\<lambda>a. \<not> is_clear a) [SumBtn sample_notes, SumBtn sample_notes]
   \<and> count_list
        (load_log (run (scripted_world fails_once (Inr short_notes) (Inr []) (Inr ([], [])))
                     [SumBtn sample_notes, SumBtn sample_notes] initial_state))
        SummarizerModel \<le> 1
   \<and> model_cache initial_state SummarizerModel = None
   \<and> pretrained (scripted_world fails_once (Inr short_notes) (Inr []) (Inr ([], [])))
        SummarizerModel (length (load_log initial_state)) = Inl (Raised (lit ''connection reset''))
   \<and> model_cache
        (snd (cache_resource
                (load_pipeline (scripted_world fails_once (Inr short_notes) (Inr []) (Inr ([], [])))
                   SummarizerModel)
                SummarizerModel initial_state))
        SummarizerModel = Some None
   \<and> model_cache
        (run (scripted_world fails_once (Inr short_notes) (Inr []) (Inr ([], [])))
           [SumBtn sample_notes, SumBtn sample_notes]
           (snd (cache_resource
                   (load_pipeline (scripted_world fails_once (Inr short_notes) (Inr []) (Inr ([], [])))
                      SummarizerModel)
                   SummarizerModel initial_state)))
        SummarizerModel = Some None
   \<and> py_strip sample_notes \<noteq> []
   \<and> sum_btn (scripted_world fails_once (Inr short_notes) (Inr []) (Inr ([], [])))
        sample_notes initial_state
       = (ModelUnavailable,
          initial_state\<lparr>model_cache := (model_cache initial_state)(SummarizerModel \<mapsto> None),
                         load_log := load_log initial_state @ [SummarizerModel]\<rparr>)
   \<and> count_list
        (infer_log
           (run (scripted_world fails_once (Inr short_notes) (Inr []) (Inr ([], [])))
              [SumBtn sample_notes, SumBtn sample_notes]
              (snd (cache_resource
                      (load_pipeline
                         (scripted_world fails_once (Inr short_notes) (Inr []) (Inr ([], [])))
                         SummarizerModel)
                      SummarizerModel initial_state))))
        SummarizerModel = 0"
proof -
  let ?w = "scripted_world fails_once (Inr short_notes) (Inr []) (Inr ([], []))"
  let ?acts = "[SumBtn sample_notes, SumBtn sample_notes]"
  let ?e = "Raised (lit ''connection reset'')"
  let ?s1 = "snd (cache_resource (load_pipeline ?w SummarizerModel) SummarizerModel initial_state)"
  note A = model_cache_state_machine[of ?acts ?w SummarizerModel initial_state ?e None
      sample_notes "lit ''French''" "lit ''Helsinki-NLP/opus-mt-en-fr''" sample_notes sample_notes]
  note B = model_cache_state_machine[of ?acts ?w SummarizerModel ?s1 ?e None
      sample_notes "lit ''French''" "lit ''Helsinki-NLP/opus-mt-en-fr''" sample_notes sample_notes]
  have h1: "list_all (\<lambda>a. \<not> is_clear a) ?acts" by simp
  have h2: "model_cache initial_state SummarizerModel = None"
    by (simp add: initial_state_def)
  have h3: "pretrained ?w SummarizerModel (length (load_log initial_state)) = Inl ?e"
    by (simp add: scripted_calls fails_once_def initial_state_def)
  have h4: "py_strip sample_notes \<noteq> []"
    and h5: "\<not> length (py_split (fst (truncate_text sample_notes 400))) < 20"
    using sample_notes_accepted by simp_all
  from A have "list_all (\<lambda>a. \<not> is_clear a) ?acts \<longrightarrow>
      count_list (load_log (run ?w ?acts initial_state)) SummarizerModel \<le> 1"
    by (elim conjE)
  with h1 have c1: "count_list (load_log (run ?w ?acts initial_state)) SummarizerModel \<le> 1"
    by (rule rev_mp)
  from A have "model_cache initial_state SummarizerModel = None
        \<and> pretrained ?w SummarizerModel (length (load_log initial_state)) = Inl ?e \<longrightarrow>
        fst (cache_resource (load_pipeline ?w SummarizerModel) SummarizerModel initial_state) = None
        \<and> model_cache ?s1 SummarizerModel = Some None
        \<and> load_log ?s1 = load_log initial_state @ [SummarizerModel]"
    by (elim conjE)
  with h2 h3 have c2: "model_cache ?s1 SummarizerModel = Some None"
    by simp
  from B
  have "model_cache ?s1 SummarizerModel = Some None \<and> list_all (\<lambda>a. \<not> is_clear a) ?acts \<longrightarrow>
        model_cache (run ?w ?acts ?s1) SummarizerModel = Some None
        \<and> count_list (load_log (run ?w ?acts ?s1)) SummarizerModel
            = count_list (load_log ?s1) SummarizerModel"
    by (elim conjE)
  with c2 h1 have c3: "model_cache (run ?w ?acts ?s1) SummarizerModel = Some None"
    by simp
  from A have "model_cache initial_state SummarizerModel = None
        \<and> pretrained ?w SummarizerModel (length (load_log initial_state)) = Inl ?e
        \<and> py_strip sample_notes \<noteq> []
        \<and> \<not> length (py_split (fst (truncate_text sample_notes 400))) < 20 \<longrightarrow>
        sum_btn ?w sample_notes initial_state
          = (ModelUnavailable,
             initial_state\<lparr>model_cache := (model_cache initial_state)(SummarizerModel \<mapsto> None),
                            load_log := load_log initial_state @ [SummarizerModel]\<rparr>)"
    by (elim conjE)
  moreover have "model_cache initial_state SummarizerModel = None
        \<and> pretrained ?w SummarizerModel (length (load_log initial_state)) = Inl ?e
        \<and> py_strip sample_notes \<noteq> []
        \<and> \<not> length (py_split (fst (truncate_text sample_notes 400))) < 20"
    using h2 h3 h4 h5 by (intro conjI)
  ultimately have c4: "sum_btn ?w sample_notes initial_state
          = (ModelUnavailable,
             initial_state\<lparr>model_cache := (model_cache initial_state)(SummarizerModel \<mapsto> None),
                            load_log := load_log initial_state @ [SummarizerModel]\<rparr>)"
    by (rule mp)
  from B
  have "model_cache ?s1 SummarizerModel = Some None \<and> list_all (\<lambda>a. \<not> is_clear a) ?acts \<longrightarrow>
        count_list (infer_log (run ?w ?acts ?s1)) SummarizerModel
          = count_list (infer_log ?s1) SummarizerModel"
    by (elim conjE)
  with c2 h1 have "count_list (infer_log (run ?w ?acts ?s1)) SummarizerModel
          = count_list (infer_log ?s1) SummarizerModel"
    by simp
  also have "\<dots> = 0"
    by (simp add: initial_state_def)
  finally have c5: "count_list (infer_log (run ?w ?acts ?s1)) SummarizerModel = 0" .
  from h1 c1 h2 h3 c2 c3 h4 c4 c5 show ?thesis by (intro conjI)
qed

end
